theory Spec2Isabelle
  imports Main "HOL-Library.Sublist" "HOL-Library.AList"
begin

section \<open>Errors\<close>

text \<open>
  Go errors are values. The constructors below are the error shapes the two packages build
  or inspect: \<open>errors.New\<close> and \<open>fmt.Errorf\<close> without \<open>%w\<close> give an
  \<open>ErrorString\<close>; \<open>fmt.Errorf\<close> with \<open>%w\<close> gives an \<open>Errorf\<close> that keeps
  the format and its arguments (a nil error argument is \<open>None\<close>); \<open>OpError\<close> and
  \<open>SyscallError\<close> are \<open>*net.OpError\<close> and \<open>*os.SyscallError\<close> with their
  \<open>Err\<close> field, which the external check of the host-port strategy unwraps.
\<close>

datatype error =
    ErrorString string
  | Errorf string "error option list"
  | OpError error
  | SyscallError error
  | Errno nat

section \<open>Data of the couchbase module\<close>

text \<open>
  The module's \<open>service\<close>, \<open>bucket\<close> and \<open>Config\<close> structs, with the fields
  the bootstrap reads.
\<close>

record service =
  "identifier" :: string
  minimumQuotaMb :: int
  ports :: "string list"

record bucket =
  name :: string
  flushEnabled :: bool
  queryPrimaryIndex :: bool
  quota :: int
  numReplicas :: int

record Config =
  enabledServices :: "service list"
  username :: string
  password :: string
  imageName :: string
  isEnterprise :: bool
  buckets :: "bucket list"

text \<open>
  An HTTP wait strategy as the module builds it with \<open>wait.ForHTTP\<close>: path, port, basic
  credentials and the two matchers. The matchers are closures in the source; here each is
  named by what it tests: the status matcher compares with \<open>http.StatusOK\<close>, the response
  matchers read \<open>nodes.0.status\<close> or call \<open>checkAllServicesEnabled\<close>.
\<close>

datatype status_matcher = StatusIsOK

datatype response_matcher = NodeStatusHealthy | AllServicesEnabled "service list"

record HTTPStrategy =
  hs_Path :: string
  hs_Port :: string
  hs_Credentials :: "(string \<times> string) option"
  hs_StatusCodeMatcher :: status_matcher
  hs_ResponseMatcher :: "response_matcher option"

text \<open>
  The request \<open>doHttpRequest\<close> sends: method, URL, the form (the body map), the content
  type header and the basic credentials when \<open>auth\<close> is set.
\<close>

record request =
  req_method :: string
  req_url :: string
  req_form :: "(string \<times> string) list"
  req_contentType :: string
  req_auth :: "(string \<times> string) option"

section \<open>The wait package: \<open>wait/host_port.go\<close>\<close>

subsection \<open>Formatting helpers of the standard library\<close>

definition digit_char :: "nat \<Rightarrow> char" where
  "digit_char n = ''0123456789abcdef'' ! n"

fun digits :: "nat \<Rightarrow> nat \<Rightarrow> string" where
  "digits b n = (if b < 2 \<or> n < b then [digit_char n] else digits b (n div b) @ [digit_char (n mod b)])"

declare digits.simps [simp del]

text \<open>\<open>strconv.Itoa\<close> and the verb \<open>%d\<close>.\<close>

definition Itoa :: "int \<Rightarrow> string" where
  "Itoa i = (if i < 0 then ''-'' @ digits 10 (nat (- i)) else digits 10 (nat i))"

text \<open>The verb \<open>%04x\<close>: hexadecimal, padded with zeros to width 4, the sign counted in the width.\<close>

definition zero_pad :: "nat \<Rightarrow> string \<Rightarrow> string" where
  "zero_pad n s = replicate (n - length s) (CHR ''0'') @ s"

definition fmt_04x :: "int \<Rightarrow> string" where
  "fmt_04x i = (if i < 0 then ''-'' @ zero_pad 3 (digits 16 (nat (- i))) else zero_pad 4 (digits 16 (nat i)))"

text \<open>\<open>net.JoinHostPort\<close>: the host is bracketed when it holds a colon or a percent sign.\<close>

definition JoinHostPort :: "string \<Rightarrow> string \<Rightarrow> string" where
  "JoinHostPort host port =
     (if CHR '':'' \<in> set host \<or> CHR ''%'' \<in> set host then ''['' @ host @ '']:'' @ port
      else host @ '':'' @ port)"

subsection \<open>Events and the target\<close>

text \<open>
  Everything the code does to its surroundings is a call on the target, on the context,
  on the dialer, on the clock or on the HTTP client. The trace lists these calls in the
  order they are made. The last five events are those of the couchbase module.
\<close>

datatype event =
    EvWithTimeout int
  | EvHost
  | EvPorts
  | EvMappedPort string
  | EvSelect int
  | EvCheckTarget
  | EvPrintf int string error
  | EvDial string string
  | EvConnClose
  | EvSleep int
  | EvCtxErr
  | EvExec "string list"
  | EvGenericContainer string "string list"
  | EvContainerIP
  | EvWaitHTTP HTTPStrategy
  | EvHttpDo request
  | EvBackOff

type_synonym trace = "event list"

text \<open>
  The target, the context and the library functions the file calls but does not define.
  Each call that can answer differently over time takes the trace so far, so that the record
  stands for any deterministic surroundings. A Go call returning \<open>(value, error)\<close> is a pair
  whose second component is \<open>None\<close> for a nil error.
  \<^item> \<open>t_Ports\<close> gives the keys of the port map in the order \<open>range\<close> visits them;
  \<^item> \<open>t_select d\<close> is the \<open>select\<close> between \<open>ctx.Done()\<close> and \<open>time.After(d)\<close>:
    \<open>Some e\<close> when the context is done, with \<open>e\<close> the value of \<open>ctx.Err()\<close>, and
    \<open>None\<close> when the timer fires;
  \<^item> \<open>t_Dial\<close> is \<open>dialer.DialContext\<close>: \<open>None\<close> stands for a connection;
  \<^item> \<open>checkTarget\<close>, \<open>isConnRefusedErr\<close>, \<open>defaultStartupTimeout\<close> and
    \<open>defaultPollInterval\<close> are functions of the package kept in other files;
    \<open>port_Proto\<close> and \<open>port_Int\<close> are the methods of \<open>nat.Port\<close>.
\<close>

record target =
  t_Host :: "trace \<Rightarrow> string \<times> error option"
  t_Ports :: "trace \<Rightarrow> string list \<times> error option"
  t_MappedPort :: "trace \<Rightarrow> string \<Rightarrow> string \<times> error option"
  t_Exec :: "trace \<Rightarrow> string list \<Rightarrow> int \<times> error option"
  t_select :: "trace \<Rightarrow> int \<Rightarrow> error option"
  t_ctxErr :: "trace \<Rightarrow> error option"
  t_Dial :: "trace \<Rightarrow> string \<Rightarrow> string \<Rightarrow> error option"
  checkTarget :: "trace \<Rightarrow> error option"
  isConnRefusedErr :: "error \<Rightarrow> bool"
  defaultStartupTimeout :: int
  defaultPollInterval :: int
  port_Proto :: "string \<Rightarrow> string"
  port_Int :: "string \<Rightarrow> int"

subsection \<open>The strategy\<close>

record HostPortStrategy =
  Port :: string
  timeout :: "int option"
  PollInterval :: int

definition NewHostPortStrategy :: "('a target_scheme) \<Rightarrow> string \<Rightarrow> HostPortStrategy" where
  "NewHostPortStrategy t port = \<lparr>Port = port, timeout = None, PollInterval = defaultPollInterval t\<rparr>"

definition ForListeningPort :: "('a target_scheme) \<Rightarrow> string \<Rightarrow> HostPortStrategy" where
  "ForListeningPort t port = NewHostPortStrategy t port"

definition ForExposedPort :: "('a target_scheme) \<Rightarrow> HostPortStrategy" where
  "ForExposedPort t = NewHostPortStrategy t ''''"

definition WithStartupTimeout :: "int \<Rightarrow> HostPortStrategy \<Rightarrow> HostPortStrategy" where
  "WithStartupTimeout startupTimeout hp = hp\<lparr>timeout := Some startupTimeout\<rparr>"

definition WithPollInterval :: "int \<Rightarrow> HostPortStrategy \<Rightarrow> HostPortStrategy" where
  "WithPollInterval pollInterval hp = hp\<lparr>PollInterval := pollInterval\<rparr>"

text \<open>
  The raw string of \<open>buildInternalCheckCommand\<close> breaks its lines with a newline
  followed by tabs: \<open>nl n\<close> is a newline and \<open>n\<close> tabs, \<open>sq\<close> the single quote.
\<close>

definition nl :: "nat \<Rightarrow> string" where
  "nl n = CHR 0x0A # replicate n (CHR 0x09)"

definition sq :: string where
  "sq = [CHR 0x27]"

definition buildInternalCheckCommand :: "int \<Rightarrow> string" where
  "buildInternalCheckCommand internalPort =
     ''true && '' @ ''('' @ nl 5
       @ ''cat /proc/net/tcp* | awk '' @ sq @ ''{print $2}'' @ sq @ '' | grep -i :'' @ fmt_04x internalPort
       @ '' ||'' @ nl 5
       @ ''nc -vz -w 1 localhost '' @ Itoa internalPort @ '' ||'' @ nl 5
       @ ''/bin/sh -c '' @ sq @ ''</dev/tcp/localhost/'' @ Itoa internalPort @ sq @ nl 4
       @ '')'' @ nl 4"

text \<open>
  The type switch of the external check: the dial error is a \<open>*net.OpError\<close> whose
  \<open>Err\<close> is a \<open>*os.SyscallError\<close> whose \<open>Err\<close> is a connection-refused error.
\<close>

definition dialRefused :: "('a target_scheme) \<Rightarrow> error \<Rightarrow> bool" where
  "dialRefused t err =
     (case err of
        OpError v \<Rightarrow> (case v of SyscallError v2 \<Rightarrow> isConnRefusedErr t v2 | _ \<Rightarrow> False)
      | _ \<Rightarrow> False)"

text \<open>
  The loop \<open>for port == ""\<close> (lines 109 to 124). The counter \<open>i\<close> is only printed.
  The result is the mapped port, or the error the function returns.
\<close>

partial_function (option) waitMappedPort ::
  "('a target_scheme) \<Rightarrow> int \<Rightarrow> string \<Rightarrow> int \<Rightarrow> string \<Rightarrow> error option \<Rightarrow> trace
     \<Rightarrow> ((error + string) \<times> trace) option" where
  [code]: "waitMappedPort t waitInterval internalPort i port err tr =
     (if port \<noteq> [] then Some (Inr port, tr)
      else
        (case t_select t tr waitInterval of
           Some ctxErr \<Rightarrow> Some (Inl (Errorf ''%s:%w'' [Some ctxErr, err]), tr @ [EvSelect waitInterval])
         | None \<Rightarrow>
             (case checkTarget t (tr @ [EvSelect waitInterval]) of
                Some e \<Rightarrow> Some (Inl e, tr @ [EvSelect waitInterval, EvCheckTarget])
              | None \<Rightarrow>
                  (case t_MappedPort t (tr @ [EvSelect waitInterval, EvCheckTarget]) internalPort of
                     (port', None) \<Rightarrow>
                       waitMappedPort t waitInterval internalPort (i + 1) port' None
                         (tr @ [EvSelect waitInterval, EvCheckTarget, EvMappedPort internalPort])
                   | (port', Some e) \<Rightarrow>
                       waitMappedPort t waitInterval internalPort (i + 1) port' (Some e)
                         (tr @ [EvSelect waitInterval, EvCheckTarget, EvMappedPort internalPort,
                                EvPrintf (i + 1) port' e])))))"

text \<open>The external check (lines 133 to 152): dial from outside until a connection is made.\<close>

partial_function (option) externalCheck ::
  "('a target_scheme) \<Rightarrow> int \<Rightarrow> string \<Rightarrow> string \<Rightarrow> trace \<Rightarrow> (error option \<times> trace) option" where
  [code]: "externalCheck t waitInterval proto address tr =
     (case checkTarget t tr of
        Some e \<Rightarrow> Some (Some e, tr @ [EvCheckTarget])
      | None \<Rightarrow>
          (case t_Dial t (tr @ [EvCheckTarget]) proto address of
             Some e \<Rightarrow>
               if dialRefused t e
               then externalCheck t waitInterval proto address
                      (tr @ [EvCheckTarget, EvDial proto address, EvSleep waitInterval])
               else Some (Some e, tr @ [EvCheckTarget, EvDial proto address])
           | None \<Rightarrow> Some (None, tr @ [EvCheckTarget, EvDial proto address, EvConnClose])))"

text \<open>
  The internal check (lines 156 to 173): run the shell probe inside the instance. The two
  reads of \<open>ctx.Err()\<close> at the head of the loop are one event: the error of a context
  does not change once it is set.
\<close>

partial_function (option) internalCheck ::
  "('a target_scheme) \<Rightarrow> string \<Rightarrow> trace \<Rightarrow> (error option \<times> trace) option" where
  [code]: "internalCheck t command tr =
     (case t_ctxErr t tr of
        Some e \<Rightarrow> Some (Some e, tr @ [EvCtxErr])
      | None \<Rightarrow>
          (case checkTarget t (tr @ [EvCtxErr]) of
             Some e \<Rightarrow> Some (Some e, tr @ [EvCtxErr, EvCheckTarget])
           | None \<Rightarrow>
               (case t_Exec t (tr @ [EvCtxErr, EvCheckTarget]) [''/bin/sh'', ''-c'', command] of
                  (exitCode, Some e) \<Rightarrow>
                    Some (Some (Errorf ''%w, host port waiting failed'' [Some e]),
                          tr @ [EvCtxErr, EvCheckTarget, EvExec [''/bin/sh'', ''-c'', command]])
                | (exitCode, None) \<Rightarrow>
                    if exitCode = 0
                    then Some (None, tr @ [EvCtxErr, EvCheckTarget, EvExec [''/bin/sh'', ''-c'', command]])
                    else if exitCode = 126
                    then Some (Some (ErrorString ''/bin/sh command not executable''),
                               tr @ [EvCtxErr, EvCheckTarget, EvExec [''/bin/sh'', ''-c'', command]])
                    else internalCheck t command
                           (tr @ [EvCtxErr, EvCheckTarget, EvExec [''/bin/sh'', ''-c'', command]]))))"

text \<open>
  Lines 85 to 103: the port to wait for. An empty \<open>Port\<close> asks the target for its ports
  once and takes the first key that \<open>range\<close> visits.
\<close>

definition resolveInternalPort ::
  "('a target_scheme) \<Rightarrow> HostPortStrategy \<Rightarrow> trace \<Rightarrow> (error + string) \<times> trace" where
  "resolveInternalPort t hp tr =
     (if Port hp = []
      then
        (case t_Ports t tr of
           (portMap, Some e) \<Rightarrow> (Inl e, tr @ [EvPorts])
         | (portMap, None) \<Rightarrow>
             (let internalPort = (if length portMap > 0 then hd portMap else []) in
              if internalPort = [] then (Inl (ErrorString ''no port to wait for''), tr @ [EvPorts])
              else (Inr internalPort, tr @ [EvPorts])))
      else (Inr (Port hp), tr))"

text \<open>Lines 70 to 73: the startup timeout.\<close>

definition startupTimeout :: "HostPortStrategy \<Rightarrow> ('a target_scheme) \<Rightarrow> int" where
  "startupTimeout hp t = (case timeout hp of None \<Rightarrow> defaultStartupTimeout t | Some d \<Rightarrow> d)"

text \<open>Lines 126 to 175: with the mapped port known, the external and then the internal check.\<close>

definition probePort ::
  "('a target_scheme) \<Rightarrow> int \<Rightarrow> string \<Rightarrow> string \<Rightarrow> string \<Rightarrow> trace
     \<Rightarrow> (error option \<times> trace) option" where
  "probePort t waitInterval ipAddress internalPort port tr =
     (let proto = port_Proto t port;
          portNumber = port_Int t port;
          portString = Itoa portNumber;
          address = JoinHostPort ipAddress portString
      in
      case externalCheck t waitInterval proto address tr of
        None \<Rightarrow> None
      | Some (Some e, tr') \<Rightarrow> Some (Some e, tr')
      | Some (None, tr') \<Rightarrow>
          internalCheck t (buildInternalCheckCommand (port_Int t internalPort)) tr')"

text \<open>Lines 105 to 175: everything after the port to wait for is known.\<close>

definition waitForPort ::
  "('a target_scheme) \<Rightarrow> int \<Rightarrow> string \<Rightarrow> string \<Rightarrow> trace \<Rightarrow> (error option \<times> trace) option" where
  "waitForPort t waitInterval ipAddress internalPort tr =
     (case t_MappedPort t tr internalPort of
        (port0, err0) \<Rightarrow>
          (case waitMappedPort t waitInterval internalPort 0 port0 err0
                  (tr @ [EvMappedPort internalPort]) of
             None \<Rightarrow> None
           | Some (Inl e, tr') \<Rightarrow> Some (Some e, tr')
           | Some (Inr port, tr') \<Rightarrow> probePort t waitInterval ipAddress internalPort port tr'))"

text \<open>
  \<open>WaitUntilReady\<close>, from a trace \<open>tr0\<close> of what happened before the call. \<open>None\<close>
  is a call that never returns. The deferred \<open>cancel\<close> of the derived context has no
  effect on what the call returns and is left out of the trace.
\<close>

definition WaitUntilReady ::
  "HostPortStrategy \<Rightarrow> ('a target_scheme) \<Rightarrow> trace \<Rightarrow> (error option \<times> trace) option" where
  "WaitUntilReady hp t tr0 =
     (case t_Host t (tr0 @ [EvWithTimeout (startupTimeout hp t)]) of
        (ipAddress, Some e) \<Rightarrow> Some (Some e, tr0 @ [EvWithTimeout (startupTimeout hp t), EvHost])
      | (ipAddress, None) \<Rightarrow>
          (case resolveInternalPort t hp (tr0 @ [EvWithTimeout (startupTimeout hp t), EvHost]) of
             (Inl e, tr') \<Rightarrow> Some (Some e, tr')
           | (Inr internalPort, tr') \<Rightarrow> waitForPort t (PollInterval hp) ipAddress internalPort tr'))"

definition is_EvSleep :: "event \<Rightarrow> bool" where
  "is_EvSleep ev = (case ev of EvSleep d \<Rightarrow> True | _ \<Rightarrow> False)"

section \<open>The couchbase module\<close>

definition MGMT_PORT :: string where "MGMT_PORT = ''8091''"
definition MGMT_SSL_PORT :: string where "MGMT_SSL_PORT = ''18091''"
definition VIEW_PORT :: string where "VIEW_PORT = ''8092''"
definition VIEW_SSL_PORT :: string where "VIEW_SSL_PORT = ''18092''"
definition QUERY_PORT :: string where "QUERY_PORT = ''8093''"
definition QUERY_SSL_PORT :: string where "QUERY_SSL_PORT = ''18093''"
definition SEARCH_PORT :: string where "SEARCH_PORT = ''8094''"
definition SEARCH_SSL_PORT :: string where "SEARCH_SSL_PORT = ''18094''"
definition ANALYTICS_PORT :: string where "ANALYTICS_PORT = ''8095''"
definition ANALYTICS_SSL_PORT :: string where "ANALYTICS_SSL_PORT = ''18095''"
definition EVENTING_PORT :: string where "EVENTING_PORT = ''8096''"
definition EVENTING_SSL_PORT :: string where "EVENTING_SSL_PORT = ''18096''"
definition KV_PORT :: string where "KV_PORT = ''11210''"
definition KV_SSL_PORT :: string where "KV_SSL_PORT = ''11207''"

text \<open>
  The container is a target (it embeds \<open>testcontainers.Container\<close>) with what the module
  needs besides:
  \<^item> \<open>c_GenericContainer\<close> is \<open>testcontainers.GenericContainer\<close> for an image and its
    exposed ports, \<open>c_ContainerIP\<close> the method \<open>ContainerIP\<close>;
  \<^item> \<open>c_WaitHTTP\<close> is \<open>WaitUntilReady\<close> of an HTTP strategy on the container;
  \<^item> \<open>c_NewRequest\<close> is the error of \<open>http.NewRequestWithContext\<close> for a method and
    a URL; \<open>c_Do\<close> is \<open>http.DefaultClient.Do\<close> followed by \<open>io.ReadAll\<close> of
    the body: \<open>Inl e\<close> when \<open>Do\<close> fails, \<open>Inr\<close> of what \<open>ReadAll\<close> returns
    otherwise;
  \<^item> \<open>c_NextBackOff\<close> is the decision of \<open>backoff.Retry\<close> after a failed operation:
    \<open>Some e\<close> to give up and return \<open>e\<close>, \<open>None\<close> to wait and call again;
  \<^item> \<open>gjson_Bool json path\<close> is \<open>gjson.Get(json, path).Bool()\<close>;
  \<^item> \<open>hasQuota\<close> and the six services are declared in other files of the module.
\<close>

record cluster = target +
  c_GenericContainer :: "trace \<Rightarrow> string \<Rightarrow> string list \<Rightarrow> error option"
  c_ContainerIP :: "trace \<Rightarrow> string \<times> error option"
  c_WaitHTTP :: "trace \<Rightarrow> HTTPStrategy \<Rightarrow> error option"
  c_NewRequest :: "string \<Rightarrow> string \<Rightarrow> error option"
  c_Do :: "trace \<Rightarrow> request \<Rightarrow> error + (string \<times> error option)"
  c_NextBackOff :: "trace \<Rightarrow> error \<Rightarrow> error option"
  gjson_Bool :: "string \<Rightarrow> string \<Rightarrow> bool"
  hasQuota :: "service \<Rightarrow> bool"
  kv :: service
  query :: service
  search :: service
  index :: service
  analytics :: service
  eventing :: service

text \<open>
  The state of a bootstrap: the configuration behind the \<open>config\<close> pointer, which
  \<open>initializeIsEnterprise\<close> writes, and the trace.
\<close>

record cstate =
  config :: Config
  events :: trace

type_synonym form = "(string \<times> string) list"

primrec contains :: "service list \<Rightarrow> service \<Rightarrow> bool" where
  "contains [] service = False"
| "contains (s # services) service =
     (if identifier s = identifier service then True else contains services service)"

definition exposePorts :: "service list \<Rightarrow> string list" where
  "exposePorts enabled =
     fold (\<lambda>service exposedPorts. fold (\<lambda>port exposedPorts. exposedPorts @ [port @ ''/tcp'']) (ports service) exposedPorts)
       enabled [MGMT_PORT @ ''/tcp'', MGMT_SSL_PORT @ ''/tcp'']"

definition getUrl :: "cluster \<Rightarrow> string \<Rightarrow> string \<Rightarrow> trace \<Rightarrow> (string \<times> error option) \<times> trace" where
  "getUrl c port path tr =
     (case t_Host c tr of
        (host, Some e) \<Rightarrow> (([], Some e), tr @ [EvHost])
      | (host, None) \<Rightarrow>
          (case t_MappedPort c (tr @ [EvHost]) port of
             (mappedPort, Some e) \<Rightarrow> (([], Some e), tr @ [EvHost, EvMappedPort port])
           | (mappedPort, None) \<Rightarrow>
               ((''http://'' @ host @ '':'' @ Itoa (port_Int c mappedPort) @ path, None),
                tr @ [EvHost, EvMappedPort port])))"

definition mkRequest :: "cstate \<Rightarrow> string \<Rightarrow> string \<Rightarrow> form \<Rightarrow> bool \<Rightarrow> request" where
  "mkRequest st method url body auth =
     \<lparr>req_method = method, req_url = url, req_form = body,
      req_contentType = ''application/x-www-form-urlencoded'',
      req_auth = (if auth then Some (username (config st), password (config st)) else None)\<rparr>"

definition doHttpRequest ::
  "cluster \<Rightarrow> string \<Rightarrow> string \<Rightarrow> string \<Rightarrow> form \<Rightarrow> bool \<Rightarrow> cstate
     \<Rightarrow> (string \<times> error option) \<times> cstate" where
  "doHttpRequest c port path method body auth st =
     (case getUrl c port path (events st) of
        ((url, Some e), tr) \<Rightarrow> (([], Some e), st\<lparr>events := tr\<rparr>)
      | ((url, None), tr) \<Rightarrow>
          (case c_NewRequest c method url of
             Some e \<Rightarrow> (([], Some e), st\<lparr>events := tr\<rparr>)
           | None \<Rightarrow>
               (case c_Do c tr (mkRequest st method url body auth) of
                  Inl e \<Rightarrow> (([], Some e), st\<lparr>events := tr @ [EvHttpDo (mkRequest st method url body auth)]\<rparr>)
                | Inr r \<Rightarrow> (r, st\<lparr>events := tr @ [EvHttpDo (mkRequest st method url body auth)]\<rparr>))))"

text \<open>The steps whose single request gives the step's error: the response is dropped.\<close>

definition requestStep ::
  "cluster \<Rightarrow> string \<Rightarrow> string \<Rightarrow> string \<Rightarrow> form \<Rightarrow> bool \<Rightarrow> cstate \<Rightarrow> error option \<times> cstate" where
  "requestStep c port path method body auth st =
     (case doHttpRequest c port path method body auth st of ((response, err), st') \<Rightarrow> (err, st'))"

definition HTTPStrategy_WaitUntilReady :: "cluster \<Rightarrow> HTTPStrategy \<Rightarrow> trace \<Rightarrow> (error option \<times> trace) option" where
  "HTTPStrategy_WaitUntilReady c hs tr = Some (c_WaitHTTP c tr hs, tr @ [EvWaitHTTP hs])"

text \<open>
  Modelled from the spec: \<open>wait.ForAll(...).WaitUntilReady\<close>, the compound strategy, whose
  file is not among the sources. The spec (4.4): the sub-strategies are evaluated
  sequentially in listed order; the first to fail aborts the compound with that
  sub-strategy's error and the later ones are never evaluated; success requires every
  sub-strategy to have succeeded.
\<close>

fun MultiStrategy_WaitUntilReady ::
  "(trace \<Rightarrow> (error option \<times> trace) option) list \<Rightarrow> trace \<Rightarrow> (error option \<times> trace) option" where
  "MultiStrategy_WaitUntilReady [] tr = Some (None, tr)"
| "MultiStrategy_WaitUntilReady (strategy # strategies) tr =
     (case strategy tr of
        None \<Rightarrow> None
      | Some (Some e, tr') \<Rightarrow> Some (Some e, tr')
      | Some (None, tr') \<Rightarrow> MultiStrategy_WaitUntilReady strategies tr')"

definition healthStrategies :: "cluster \<Rightarrow> Config \<Rightarrow> HTTPStrategy list" where
  "healthStrategies c cfg =
     [\<lparr>hs_Path = ''/pools/default'', hs_Port = MGMT_PORT,
       hs_Credentials = Some (username cfg, password cfg),
       hs_StatusCodeMatcher = StatusIsOK, hs_ResponseMatcher = Some NodeStatusHealthy\<rparr>]
     @ (if contains (enabledServices cfg) (query c)
        then [\<lparr>hs_Path = ''/admin/ping'', hs_Port = QUERY_PORT,
                hs_Credentials = Some (username cfg, password cfg),
                hs_StatusCodeMatcher = StatusIsOK, hs_ResponseMatcher = None\<rparr>]
        else [])
     @ (if contains (enabledServices cfg) (analytics c)
        then [\<lparr>hs_Path = ''/admin/ping'', hs_Port = ANALYTICS_PORT,
                hs_Credentials = Some (username cfg, password cfg),
                hs_StatusCodeMatcher = StatusIsOK, hs_ResponseMatcher = None\<rparr>]
        else [])
     @ (if contains (enabledServices cfg) (eventing c)
        then [\<lparr>hs_Path = ''/api/v1/config'', hs_Port = EVENTING_PORT,
                hs_Credentials = Some (username cfg, password cfg),
                hs_StatusCodeMatcher = StatusIsOK, hs_ResponseMatcher = None\<rparr>]
        else [])"

definition waitUntilAllNodesAreHealthy :: "cluster \<Rightarrow> cstate \<Rightarrow> (error option \<times> cstate) option" where
  "waitUntilAllNodesAreHealthy c st =
     (case MultiStrategy_WaitUntilReady
             (map (HTTPStrategy_WaitUntilReady c) (healthStrategies c (config st))) (events st) of
        None \<Rightarrow> None
      | Some (err, tr) \<Rightarrow> Some (err, st\<lparr>events := tr\<rparr>))"

definition waitUntilNodeIsOnline :: "cluster \<Rightarrow> cstate \<Rightarrow> error option \<times> cstate" where
  "waitUntilNodeIsOnline c st =
     (let hs = \<lparr>hs_Path = ''/pools'', hs_Port = MGMT_PORT, hs_Credentials = None,
                hs_StatusCodeMatcher = StatusIsOK, hs_ResponseMatcher = None\<rparr>
      in (c_WaitHTTP c (events st) hs, st\<lparr>events := events st @ [EvWaitHTTP hs]\<rparr>))"

definition initializeIsEnterprise :: "cluster \<Rightarrow> cstate \<Rightarrow> error option \<times> cstate" where
  "initializeIsEnterprise c st =
     (case doHttpRequest c MGMT_PORT ''/pools'' ''GET'' [] False st of
        ((response, Some e), st1) \<Rightarrow> (Some e, st1)
      | ((response, None), st1) \<Rightarrow>
          (let st2 = st1\<lparr>config := (config st1)\<lparr>isEnterprise := gjson_Bool c response ''isEnterprise''\<rparr>\<rparr> in
           if \<not> isEnterprise (config st2)
           then
             if contains (enabledServices (config st2)) (analytics c)
             then (Some (ErrorString ''the Analytics Service is only supported with the Enterprise version''), st2)
             else if contains (enabledServices (config st2)) (eventing c)
             then (Some (ErrorString ''the Eventing Service is only supported with the Enterprise version''), st2)
             else (None, st2)
           else (None, st2)))"

definition getInternalIPAddress :: "cluster \<Rightarrow> trace \<Rightarrow> (string \<times> error option) \<times> trace" where
  "getInternalIPAddress c tr =
     (case c_ContainerIP c tr of
        (networks, Some e) \<Rightarrow> (([], Some e), tr @ [EvContainerIP])
      | (networks, None) \<Rightarrow> ((networks, None), tr @ [EvContainerIP]))"

definition renameNode :: "cluster \<Rightarrow> cstate \<Rightarrow> error option \<times> cstate" where
  "renameNode c st =
     (case getInternalIPAddress c (events st) of
        ((hostname, Some e), tr) \<Rightarrow> (Some e, st\<lparr>events := tr\<rparr>)
      | ((hostname, None), tr) \<Rightarrow>
          requestStep c MGMT_PORT ''/node/controller/rename'' ''POST'' [(''hostname'', hostname)] False
            (st\<lparr>events := tr\<rparr>))"

text \<open>\<open>strings.Join\<close> with a comma.\<close>

fun Join_comma :: "string list \<Rightarrow> string" where
  "Join_comma [] = []"
| "Join_comma [x] = x"
| "Join_comma (x # y # zs) = x @ '','' @ Join_comma (y # zs)"

definition getEnabledServices :: "Config \<Rightarrow> string" where
  "getEnabledServices cfg = Join_comma (map identifier (enabledServices cfg))"

definition initializeServices :: "cluster \<Rightarrow> cstate \<Rightarrow> error option \<times> cstate" where
  "initializeServices c st =
     requestStep c MGMT_PORT ''/node/controller/setupServices'' ''POST''
       [(''services'', getEnabledServices (config st))] False st"

text \<open>The body map is an association list; an assignment to a key replaces its value.\<close>

definition quotaBody :: "cluster \<Rightarrow> service list \<Rightarrow> form" where
  "quotaBody c services =
     fold (\<lambda>s body.
             if \<not> hasQuota c s then body
             else if identifier s = identifier (kv c)
             then AList.update ''memoryQuota'' (Itoa (minimumQuotaMb s)) body
             else AList.update (identifier s @ ''MemoryQuota'') (Itoa (minimumQuotaMb s)) body)
       services []"

definition setMemoryQuotas :: "cluster \<Rightarrow> cstate \<Rightarrow> error option \<times> cstate" where
  "setMemoryQuotas c st =
     requestStep c MGMT_PORT ''/pools/default'' ''POST'' (quotaBody c (enabledServices (config st))) False st"

definition configureAdminUser :: "cluster \<Rightarrow> cstate \<Rightarrow> error option \<times> cstate" where
  "configureAdminUser c st =
     requestStep c MGMT_PORT ''/settings/web'' ''POST''
       [(''username'', username (config st)), (''password'', password (config st)), (''port'', ''SAME'')]
       False st"

text \<open>
  \<open>configureExternalPorts\<close> (lines 287 to 344). Every lookup for the body is of the form
  \<open>v, _ := c.MappedPort(ctx, port)\<close>: the error is dropped and the value is stored under
  a key. \<open>lookupPorts\<close> does this for a list of keys and ports, in the order of the source.
\<close>

fun lookupPorts :: "cluster \<Rightarrow> (string \<times> string) list \<Rightarrow> form \<times> trace \<Rightarrow> form \<times> trace" where
  "lookupPorts c [] (body, tr) = (body, tr)"
| "lookupPorts c ((key, port) # rest) (body, tr) =
     lookupPorts c rest (AList.update key (fst (t_MappedPort c tr port)) body, tr @ [EvMappedPort port])"

text \<open>The keys and ports the step looks up, block by block as the services are enabled.\<close>

definition externalPortsTable :: "cluster \<Rightarrow> Config \<Rightarrow> (string \<times> string) list" where
  "externalPortsTable c cfg =
     [(''mgmt'', MGMT_PORT), (''mgmtSSL'', MGMT_SSL_PORT)]
     @ (if contains (enabledServices cfg) (kv c)
        then [(''kv'', KV_PORT), (''kvSSL'', KV_SSL_PORT), (''capi'', VIEW_PORT), (''capiSSL'', VIEW_SSL_PORT)]
        else [])
     @ (if contains (enabledServices cfg) (query c)
        then [(''n1ql'', QUERY_PORT), (''n1qlSSL'', QUERY_SSL_PORT)] else [])
     @ (if contains (enabledServices cfg) (search c)
        then [(''fts'', SEARCH_PORT), (''ftsSSL'', SEARCH_SSL_PORT)] else [])
     @ (if contains (enabledServices cfg) (analytics c)
        then [(''cbas'', ANALYTICS_PORT), (''cbasSSL'', ANALYTICS_SSL_PORT)] else [])
     @ (if contains (enabledServices cfg) (eventing c)
        then [(''eventingAdminPort'', EVENTING_PORT), (''eventingSSL'', EVENTING_SSL_PORT)] else [])"

text \<open>The body: \<open>host, _ := c.Host(ctx)\<close> first, then the lookups of the table.\<close>

definition externalPortsBody :: "cluster \<Rightarrow> Config \<Rightarrow> trace \<Rightarrow> form \<times> trace" where
  "externalPortsBody c cfg tr =
     lookupPorts c (externalPortsTable c cfg) ([(''hostname'', fst (t_Host c tr))], tr @ [EvHost])"

definition configureExternalPorts :: "cluster \<Rightarrow> cstate \<Rightarrow> error option \<times> cstate" where
  "configureExternalPorts c st =
     (case externalPortsBody c (config st) (events st) of
        (body, tr) \<Rightarrow>
          requestStep c MGMT_PORT ''/node/controller/setupAlternateAddresses/external'' ''PUT'' body True
            (st\<lparr>events := tr\<rparr>))"

definition configureIndexer :: "cluster \<Rightarrow> cstate \<Rightarrow> error option \<times> cstate" where
  "configureIndexer c st =
     requestStep c MGMT_PORT ''/settings/indexes'' ''POST''
       [(''storageMode'', if isEnterprise (config st) then ''memory_optimized'' else ''forestdb'')]
       True st"

text \<open>
  \<open>backoff.Retry\<close>: the operation is called until it succeeds or the policy gives up.
  \<open>None\<close> is a retry that never ends.
\<close>

partial_function (option) backoff_Retry ::
  "cluster \<Rightarrow> (cstate \<Rightarrow> error option \<times> cstate) \<Rightarrow> cstate \<Rightarrow> (error option \<times> cstate) option" where
  [code]: "backoff_Retry c operation st =
     (case operation st of
        (None, st1) \<Rightarrow> Some (None, st1)
      | (Some e, st1) \<Rightarrow>
          (case c_NextBackOff c (events st1) e of
             Some e' \<Rightarrow> Some (Some e', st1\<lparr>events := events st1 @ [EvBackOff]\<rparr>)
           | None \<Rightarrow> backoff_Retry c operation (st1\<lparr>events := events st1 @ [EvBackOff]\<rparr>)))"

text \<open>The closure \<open>isPrimaryIndexOnline\<close> and \<open>isQueryKeyspacePresent\<close> retry: a query
  whose answer must hold a true flag.\<close>

definition queryFlag :: "cluster \<Rightarrow> form \<Rightarrow> string \<Rightarrow> string \<Rightarrow> cstate \<Rightarrow> error option \<times> cstate" where
  "queryFlag c body path msg st =
     (case doHttpRequest c QUERY_PORT ''/query/service'' ''POST'' body True st of
        ((response, Some e), st1) \<Rightarrow> (Some e, st1)
      | ((response, None), st1) \<Rightarrow>
          if \<not> gjson_Bool c response path then (Some (ErrorString msg), st1) else (None, st1))"

definition isPrimaryIndexOnline :: "cluster \<Rightarrow> bucket \<Rightarrow> cstate \<Rightarrow> (error option \<times> cstate) option" where
  "isPrimaryIndexOnline c b st =
     backoff_Retry c
       (queryFlag c
          [(''statement'', ''SELECT count(*) > 0 AS online FROM system:indexes where keyspace_id = \"''
              @ name b @ ''\" and is_primary = true and state = \"online\"'')]
          ''results.0.online'' ''primary index state is not online'')
       st"

definition createPrimaryIndex :: "cluster \<Rightarrow> bucket \<Rightarrow> cstate \<Rightarrow> error option \<times> cstate" where
  "createPrimaryIndex c b st =
     requestStep c QUERY_PORT ''/query/service'' ''POST''
       [(''statement'', ''CREATE PRIMARY INDEX on `'' @ name b @ ''`'')] True st"

definition isQueryKeyspacePresent :: "cluster \<Rightarrow> bucket \<Rightarrow> cstate \<Rightarrow> (error option \<times> cstate) option" where
  "isQueryKeyspacePresent c b st =
     backoff_Retry c
       (queryFlag c
          [(''statement'', ''SELECT COUNT(*) > 0 as present FROM system:keyspaces WHERE name = \"''
              @ name b @ ''\"'')]
          ''results.0.present'' ''query namespace is not present'')
       st"

definition waitForAllServicesEnabled :: "cluster \<Rightarrow> bucket \<Rightarrow> cstate \<Rightarrow> error option \<times> cstate" where
  "waitForAllServicesEnabled c b st =
     (let hs = \<lparr>hs_Path = ''/pools/default/b/'' @ name b, hs_Port = MGMT_PORT,
                hs_Credentials = Some (username (config st), password (config st)),
                hs_StatusCodeMatcher = StatusIsOK,
                hs_ResponseMatcher = Some (AllServicesEnabled (enabledServices (config st)))\<rparr>
      in (c_WaitHTTP c (events st) hs, st\<lparr>events := events st @ [EvWaitHTTP hs]\<rparr>))"

definition createBucket :: "cluster \<Rightarrow> bucket \<Rightarrow> cstate \<Rightarrow> error option \<times> cstate" where
  "createBucket c b st =
     requestStep c MGMT_PORT ''/pools/default/buckets'' ''POST''
       [(''name'', name b), (''ramQuotaMB'', Itoa (quota b)),
        (''flushEnabled'', if flushEnabled b then ''1'' else ''0''),
        (''replicaNumber'', Itoa (numReplicas b))]
       True st"

text \<open>
  \<open>createBuckets\<close> (lines 361 to 399). \<open>primaryIndex\<close> is the block under
  \<open>if bucket.queryPrimaryIndex\<close>, \<open>createBucketsFrom\<close> the loop over the buckets.
\<close>

definition primaryIndex :: "cluster \<Rightarrow> bucket \<Rightarrow> cstate \<Rightarrow> (error option \<times> cstate) option" where
  "primaryIndex c b st =
     (if \<not> contains (enabledServices (config st)) (query c)
      then Some (Some (ErrorString (''primary index creation for bucket '' @ name b
                   @ '' ignored, since QUERY service is not present'')), st)
      else
        (case createPrimaryIndex c b st of
           (Some e, st1) \<Rightarrow> Some (Some e, st1)
         | (None, st1) \<Rightarrow> isPrimaryIndexOnline c b st1))"

fun createBucketsFrom :: "cluster \<Rightarrow> bucket list \<Rightarrow> cstate \<Rightarrow> (error option \<times> cstate) option" where
  "createBucketsFrom c [] st = Some (None, st)"
| "createBucketsFrom c (b # bs) st =
     (case createBucket c b st of
        (Some e, st1) \<Rightarrow> Some (Some e, st1)
      | (None, st1) \<Rightarrow>
          (case waitForAllServicesEnabled c b st1 of
             (Some e, st2) \<Rightarrow> Some (Some e, st2)
           | (None, st2) \<Rightarrow>
               (case (if contains (enabledServices (config st2)) (query c)
                      then isQueryKeyspacePresent c b st2 else Some (None, st2)) of
                  None \<Rightarrow> None
                | Some (Some e, st3) \<Rightarrow> Some (Some e, st3)
                | Some (None, st3) \<Rightarrow>
                    if queryPrimaryIndex b
                    then
                      (case primaryIndex c b st3 of
                         None \<Rightarrow> None
                       | Some (Some e, st4) \<Rightarrow> Some (Some e, st4)
                       | Some (None, st4) \<Rightarrow> createBucketsFrom c bs st4)
                    else createBucketsFrom c bs st3)))"

definition createBuckets :: "cluster \<Rightarrow> cstate \<Rightarrow> (error option \<times> cstate) option" where
  "createBuckets c st = createBucketsFrom c (buckets (config st)) st"

text \<open>
  \<open>StartContainer\<close>. The slice \<open>clusterInitFunc\<close> (lines 106 to 120) and the loop that
  runs it (lines 122 to 126).
\<close>

type_synonym clusterInit = "cstate \<Rightarrow> (error option \<times> cstate) option"

definition clusterInitFunc :: "cluster \<Rightarrow> Config \<Rightarrow> clusterInit list" where
  "clusterInitFunc c cfg =
     [\<lambda>st. Some (waitUntilNodeIsOnline c st),
      \<lambda>st. Some (initializeIsEnterprise c st),
      \<lambda>st. Some (renameNode c st),
      \<lambda>st. Some (initializeServices c st),
      \<lambda>st. Some (setMemoryQuotas c st),
      \<lambda>st. Some (configureAdminUser c st),
      \<lambda>st. Some (configureExternalPorts c st)]
     @ (if contains (enabledServices cfg) (index c) then [\<lambda>st. Some (configureIndexer c st)] else [])
     @ [waitUntilAllNodesAreHealthy c]"

fun runClusterInit :: "clusterInit list \<Rightarrow> cstate \<Rightarrow> (error option \<times> cstate) option" where
  "runClusterInit [] st = Some (None, st)"
| "runClusterInit (fn # fns) st =
     (case fn st of
        None \<Rightarrow> None
      | Some (Some e, st') \<Rightarrow> Some (Some e, st')
      | Some (None, st') \<Rightarrow> runClusterInit fns st')"

definition defaultConfig :: "cluster \<Rightarrow> Config" where
  "defaultConfig c =
     \<lparr>enabledServices = [kv c, query c, search c, index c], username = ''Administrator'',
      password = ''password'', imageName = ''couchbase:6.5.1'', isEnterprise = False, buckets = []\<rparr>"

definition applyOptions :: "cluster \<Rightarrow> (Config \<Rightarrow> Config) list \<Rightarrow> Config" where
  "applyOptions c opts = fold (\<lambda>opt cfg. opt cfg) opts (defaultConfig c)"

text \<open>The state in which the cluster initialisation starts: the container has been asked for.\<close>

definition requested :: "Config \<Rightarrow> cstate" where
  "requested cfg =
     \<lparr>config = cfg, events = [EvGenericContainer (imageName cfg) (exposePorts (enabledServices cfg))]\<rparr>"

definition StartContainer :: "cluster \<Rightarrow> (Config \<Rightarrow> Config) list \<Rightarrow> (error option \<times> cstate) option" where
  "StartContainer c opts =
     (let cfg = applyOptions c opts in
      case c_GenericContainer c [] (imageName cfg) (exposePorts (enabledServices cfg)) of
        Some e \<Rightarrow> Some (Some e, requested cfg)
      | None \<Rightarrow>
          (case runClusterInit (clusterInitFunc c cfg) (requested cfg) of
             None \<Rightarrow> None
           | Some (Some e, st) \<Rightarrow> Some (Some e, st)
           | Some (None, st) \<Rightarrow> createBuckets c st))"

subsection \<open>What a trace shows\<close>

text \<open>The requests of a trace, recognised by the path their URL ends with.\<close>

definition is_rename_request :: "event \<Rightarrow> bool" where
  "is_rename_request ev =
     (case ev of EvHttpDo r \<Rightarrow> suffix ''/node/controller/rename'' (req_url r) | _ \<Rightarrow> False)"

definition is_primary_index_request :: "event \<Rightarrow> bool" where
  "is_primary_index_request ev =
     (case ev of
        EvHttpDo r \<Rightarrow>
          (case map_of (req_form r) ''statement'' of
             Some stmt \<Rightarrow> prefix ''CREATE PRIMARY INDEX'' stmt
           | None \<Rightarrow> False)
      | _ \<Rightarrow> False)"

text \<open>
  The bucket operations of a trace, in order: the creation requests with the name they
  carry, and the readiness probes with the path they poll.
\<close>

datatype bucket_op = Create string | Probe string

definition bucketOp :: "event \<Rightarrow> bucket_op list" where
  "bucketOp ev =
     (case ev of
        EvHttpDo r \<Rightarrow>
          (if suffix ''/pools/default/buckets'' (req_url r)
           then (case map_of (req_form r) ''name'' of Some n \<Rightarrow> [Create n] | None \<Rightarrow> [])
           else [])
      | EvWaitHTTP hs \<Rightarrow>
          (if prefix ''/pools/default/b/'' (hs_Path hs) then [Probe (hs_Path hs)] else [])
      | _ \<Rightarrow> [])"

definition bucketOps :: "trace \<Rightarrow> bucket_op list" where
  "bucketOps tr = concat (map bucketOp tr)"

text \<open>The bucket operations that creating and probing a list of buckets in order makes.\<close>

definition bucketPlan :: "bucket list \<Rightarrow> bucket_op list" where
  "bucketPlan bs = concat (map (\<lambda>b. [Create (name b), Probe (''/pools/default/b/'' @ name b)]) bs)"

text \<open>
  Between two states nothing of what the bucket loop reads has changed, and no
  primary-index creation request has been issued.
\<close>

definition unchanged :: "cstate \<Rightarrow> cstate \<Rightarrow> bool" where
  "unchanged st st' \<longleftrightarrow>
     enabledServices (config st') = enabledServices (config st)
     \<and> buckets (config st') = buckets (config st)
     \<and> filter is_primary_index_request (events st') = filter is_primary_index_request (events st)"

section \<open>Example surroundings\<close>

definition is_EvExec :: "event \<Rightarrow> bool" where
  "is_EvExec ev = (case ev of EvExec cmd \<Rightarrow> True | _ \<Rightarrow> False)"

definition is_EvDial :: "event \<Rightarrow> bool" where
  "is_EvDial ev = (case ev of EvDial proto address \<Rightarrow> True | _ \<Rightarrow> False)"

text \<open>
  A target whose port map is empty at the first lookup and holds \<open>80/tcp\<close> afterwards,
  whose first dial is refused and whose shell probe exits with 1 once and with 0 afterwards.
\<close>

definition demo_target :: target where
  "demo_target =
     \<lparr>t_Host = (\<lambda>tr. (''localhost'', None)),
      t_Ports = (\<lambda>tr. (if EvPorts \<in> set tr then [''80/tcp''] else [], None)),
      t_MappedPort = (\<lambda>tr p. (''32768/tcp'', None)),
      t_Exec = (\<lambda>tr cmd. (if filter is_EvExec tr = [] then 1 else 0, None)),
      t_select = (\<lambda>tr d. None),
      t_ctxErr = (\<lambda>tr. None),
      t_Dial = (\<lambda>tr proto address.
                  if filter is_EvDial tr = [] then Some (OpError (SyscallError (Errno 111))) else None),
      checkTarget = (\<lambda>tr. None),
      isConnRefusedErr = (\<lambda>e. e = Errno 111),
      defaultStartupTimeout = 60000000000,
      defaultPollInterval = 100000000,
      port_Proto = (\<lambda>p. ''tcp''),
      port_Int = (\<lambda>p. if p = ''80/tcp'' then 80 else 32768)\<rparr>"

text \<open>
  A cluster of the community edition (the edition flag reads false, every other flag true)
  in which the KV port has no mapping, the readiness probe of a bucket named \<open>b1\<close>
  fails, and a request that carries the user name \<open>nobody\<close> fails.
\<close>

definition demo_cluster :: cluster where
  "demo_cluster =
     \<lparr>t_Host = (\<lambda>tr. (''localhost'', None)),
      t_Ports = (\<lambda>tr. ([''8091/tcp''], None)),
      t_MappedPort = (\<lambda>tr p. if p = KV_PORT then ([], Some (ErrorString ''port not found''))
                                else (''32768/tcp'', None)),
      t_Exec = (\<lambda>tr cmd. (0, None)),
      t_select = (\<lambda>tr d. None),
      t_ctxErr = (\<lambda>tr. None),
      t_Dial = (\<lambda>tr proto address. None),
      checkTarget = (\<lambda>tr. None),
      isConnRefusedErr = (\<lambda>e. e = Errno 111),
      defaultStartupTimeout = 60000000000,
      defaultPollInterval = 100000000,
      port_Proto = (\<lambda>p. ''tcp''),
      port_Int = (\<lambda>p. 32768),
      c_GenericContainer = (\<lambda>tr image exposed. None),
      c_ContainerIP = (\<lambda>tr. (''172.17.0.2'', None)),
      c_WaitHTTP = (\<lambda>tr hs. if hs_Path hs = ''/pools/default/b/b1''
                              then Some (ErrorString ''timeout'') else None),
      c_NewRequest = (\<lambda>method url. None),
      c_Do = (\<lambda>tr r. if map_of (req_form r) ''username'' = Some ''nobody''
                       then Inl (ErrorString ''connection reset'') else Inr (''{}'', None)),
      c_NextBackOff = (\<lambda>tr e. None),
      gjson_Bool = (\<lambda>json path. path \<noteq> ''isEnterprise''),
      hasQuota = (\<lambda>s. minimumQuotaMb s > 0),
      kv = \<lparr>identifier = ''kv'', minimumQuotaMb = 256,
             ports = [KV_PORT, KV_SSL_PORT, VIEW_PORT, VIEW_SSL_PORT]\<rparr>,
      query = \<lparr>identifier = ''n1ql'', minimumQuotaMb = 0, ports = [QUERY_PORT, QUERY_SSL_PORT]\<rparr>,
      search = \<lparr>identifier = ''fts'', minimumQuotaMb = 256, ports = [SEARCH_PORT, SEARCH_SSL_PORT]\<rparr>,
      index = \<lparr>identifier = ''index'', minimumQuotaMb = 256, ports = []\<rparr>,
      analytics = \<lparr>identifier = ''cbas'', minimumQuotaMb = 1024,
                    ports = [ANALYTICS_PORT, ANALYTICS_SSL_PORT]\<rparr>,
      eventing = \<lparr>identifier = ''eventing'', minimumQuotaMb = 256,
                   ports = [EVENTING_PORT, EVENTING_SSL_PORT]\<rparr>\<rparr>"

text \<open>Options, as \<open>WithBucket\<close>, \<open>WithService\<close> and \<open>WithCredentials\<close> would set the fields.\<close>

definition NewBucket :: "string \<Rightarrow> bucket" where
  "NewBucket n = \<lparr>name = n, flushEnabled = False, queryPrimaryIndex = True, quota = 100, numReplicas = 0\<rparr>"

definition WithBucket :: "bucket \<Rightarrow> Config \<Rightarrow> Config" where
  "WithBucket b cfg = cfg\<lparr>buckets := buckets cfg @ [b]\<rparr>"

definition WithServices :: "service list \<Rightarrow> Config \<Rightarrow> Config" where
  "WithServices ss cfg = cfg\<lparr>enabledServices := ss\<rparr>"

definition WithUsername :: "string \<Rightarrow> Config \<Rightarrow> Config" where
  "WithUsername u cfg = cfg\<lparr>username := u\<rparr>"

text \<open>Two probes: one the demo cluster answers, one (for the bucket \<open>b1\<close>) it fails.\<close>

definition probe_ok :: HTTPStrategy where
  "probe_ok = \<lparr>hs_Path = ''/pools'', hs_Port = MGMT_PORT, hs_Credentials = None,
                hs_StatusCodeMatcher = StatusIsOK, hs_ResponseMatcher = None\<rparr>"

definition probe_b1 :: HTTPStrategy where
  "probe_b1 = \<lparr>hs_Path = ''/pools/default/b/b1'', hs_Port = MGMT_PORT, hs_Credentials = None,
                hs_StatusCodeMatcher = StatusIsOK, hs_ResponseMatcher = None\<rparr>"



text \<open>
  The configuration with the KV and the analytics service, the state once the node is
  online and the state after the request that reads the edition.
\<close>

definition cfg_analytics :: Config where
  "cfg_analytics = applyOptions demo_cluster [WithServices [kv demo_cluster, analytics demo_cluster]]"

definition st_online :: cstate where
  "st_online = snd (waitUntilNodeIsOnline demo_cluster (requested cfg_analytics))"

definition st_pools :: cstate where
  "st_pools = snd (doHttpRequest demo_cluster MGMT_PORT ''/pools'' ''GET'' [] False st_online)"

text \<open>
  The configuration with the buckets \<open>b0\<close>, \<open>b1\<close> and \<open>b2\<close>; the state when the
  cluster is initialised, when \<open>b0\<close> is done, when \<open>b1\<close> is created and when \<open>b1\<close>
  has been probed.
\<close>

definition cfg_buckets :: Config where
  "cfg_buckets = applyOptions demo_cluster
     [WithBucket (NewBucket ''b0''), WithBucket (NewBucket ''b1''), WithBucket (NewBucket ''b2'')]"

definition st_ready :: cstate where
  "st_ready = snd (the (runClusterInit (clusterInitFunc demo_cluster cfg_buckets) (requested cfg_buckets)))"

definition st_b0 :: cstate where
  "st_b0 = snd (the (createBucketsFrom demo_cluster [NewBucket ''b0''] st_ready))"

definition st_b1_created :: cstate where
  "st_b1_created = snd (createBucket demo_cluster (NewBucket ''b1'') st_b0)"

definition st_b1_probed :: cstate where
  "st_b1_probed = snd (waitForAllServicesEnabled demo_cluster (NewBucket ''b1'') st_b1_created)"

text \<open>
  The configuration with the KV service alone and the bucket \<open>b0\<close>; the state when the
  cluster is initialised, when \<open>b0\<close> is created and when \<open>b0\<close> has been probed.
\<close>

definition cfg_kv :: Config where
  "cfg_kv = applyOptions demo_cluster [WithServices [kv demo_cluster], WithBucket (NewBucket ''b0'')]"

definition st_kv_ready :: cstate where
  "st_kv_ready = snd (the (runClusterInit (clusterInitFunc demo_cluster cfg_kv) (requested cfg_kv)))"

definition st_kv_created :: cstate where
  "st_kv_created = snd (createBucket demo_cluster (NewBucket ''b0'') st_kv_ready)"

definition st_kv_probed :: cstate where
  "st_kv_probed = snd (waitForAllServicesEnabled demo_cluster (NewBucket ''b0'') st_kv_created)"

section \<open>Properties of the host-port strategy\<close>

lemma count_list_snoc [simp]:
  "count_list (xs @ [y]) x = count_list xs x + (if x = y then 1 else 0)"
  by (induction xs) auto

lemma is_EvSleep_simps [simp]:
  "is_EvSleep (EvSleep d)" "\<not> is_EvSleep EvCtxErr" "\<not> is_EvSleep EvCheckTarget"
  "\<not> is_EvSleep (EvExec cmd)"
  by (simp_all add: is_EvSleep_def)

subsection \<open>The port map is read once\<close>

lemma waitMappedPort_Ports:
  assumes "waitMappedPort t w p i port err tr = Some y"
  shows "count_list (snd y) EvPorts = count_list tr EvPorts"
  by (rule waitMappedPort.raw_induct [rotated 1, OF assms])
     (auto split: option.splits prod.splits if_splits)

lemma externalCheck_Ports:
  assumes "externalCheck t w proto address tr = Some y"
  shows "count_list (snd y) EvPorts = count_list tr EvPorts"
  by (rule externalCheck.raw_induct [rotated 1, OF assms])
     (auto split: option.splits prod.splits if_splits)

lemma internalCheck_Ports:
  assumes "internalCheck t command tr = Some y"
  shows "count_list (snd y) EvPorts = count_list tr EvPorts"
  by (rule internalCheck.raw_induct [rotated 1, OF assms])
     (auto split: option.splits prod.splits if_splits)

lemma probePort_Ports:
  assumes "probePort t w ip p port tr = Some y"
  shows "count_list (snd y) EvPorts = count_list tr EvPorts"
  using assms
  by (auto simp: probePort_def Let_def split: option.splits prod.splits if_splits
      dest!: externalCheck_Ports internalCheck_Ports)

lemma waitForPort_Ports:
  assumes "waitForPort t w ip p tr = Some y"
  shows "count_list (snd y) EvPorts = count_list tr EvPorts"
  using assms
  by (auto simp: waitForPort_def split: option.splits prod.splits sum.splits
      dest!: waitMappedPort_Ports probePort_Ports)

text \<open>
  C1, as the code has it. With an empty \<open>Port\<close> and a host that resolves, the strategy
  reads the port map once. An empty map makes \<open>WaitUntilReady\<close> return the error
  \<open>no port to wait for\<close> at once, with no second lookup. A map whose first visited key is
  not empty makes that key the port waited for, and the rest of the call is the wait on
  that port. Whenever the call returns, the port map has been read exactly once: it is the
  mapped port of the chosen port that is polled, not the port map.
\<close>

theorem exposed_port_looked_up_once:
  assumes "Port hp = []"
    and "t_Host t (tr0 @ [EvWithTimeout (startupTimeout hp t)]) = (ip, None)"
    and "t_Ports t (tr0 @ [EvWithTimeout (startupTimeout hp t), EvHost]) = (portMap, None)"
  shows "(portMap = [] \<longrightarrow>
            WaitUntilReady hp t tr0 =
              Some (Some (ErrorString ''no port to wait for''),
                    tr0 @ [EvWithTimeout (startupTimeout hp t), EvHost, EvPorts]))
       \<and> (portMap \<noteq> [] \<and> hd portMap \<noteq> [] \<longrightarrow>
            WaitUntilReady hp t tr0 =
              waitForPort t (PollInterval hp) ip (hd portMap)
                (tr0 @ [EvWithTimeout (startupTimeout hp t), EvHost, EvPorts]))
       \<and> (\<forall>r tr'. WaitUntilReady hp t tr0 = Some (r, tr') \<longrightarrow>
            count_list tr' EvPorts = count_list tr0 EvPorts + 1)"
proof (intro conjI impI allI)
  assume "portMap = []"
  with assms show "WaitUntilReady hp t tr0 =
      Some (Some (ErrorString ''no port to wait for''),
            tr0 @ [EvWithTimeout (startupTimeout hp t), EvHost, EvPorts])"
    by (simp add: WaitUntilReady_def resolveInternalPort_def)
next
  assume "portMap \<noteq> [] \<and> hd portMap \<noteq> []"
  with assms show "WaitUntilReady hp t tr0 =
      waitForPort t (PollInterval hp) ip (hd portMap)
        (tr0 @ [EvWithTimeout (startupTimeout hp t), EvHost, EvPorts])"
    by (simp add: WaitUntilReady_def resolveInternalPort_def)
next
  fix r tr'
  assume ret: "WaitUntilReady hp t tr0 = Some (r, tr')"
  show "count_list tr' EvPorts = count_list tr0 EvPorts + 1"
  proof (cases "portMap = [] \<or> hd portMap = []")
    case True
    with assms ret show ?thesis
      by (auto simp: WaitUntilReady_def resolveInternalPort_def)
  next
    case False
    with assms ret have "waitForPort t (PollInterval hp) ip (hd portMap)
        (tr0 @ [EvWithTimeout (startupTimeout hp t), EvHost, EvPorts]) = Some (r, tr')"
      by (simp add: WaitUntilReady_def resolveInternalPort_def)
    from waitForPort_Ports [OF this] show ?thesis by simp
  qed
qed

text \<open>The theorem at \<open>demo_target\<close>, after a first lookup: the port map holds \<open>80/tcp\<close>.\<close>

theorem exposed_port_looked_up_once_witness:
  "Port (ForExposedPort demo_target) = []
   \<and> t_Host demo_target [EvPorts, EvWithTimeout 60000000000] = (''localhost'', None)
   \<and> t_Ports demo_target [EvPorts, EvWithTimeout 60000000000, EvHost] = ([''80/tcp''], None)
   \<and> WaitUntilReady (ForExposedPort demo_target) demo_target [EvPorts] =
       waitForPort demo_target 100000000 ''localhost'' ''80/tcp''
         [EvPorts, EvWithTimeout 60000000000, EvHost, EvPorts]"
  using exposed_port_looked_up_once
    [of "ForExposedPort demo_target" demo_target "[EvPorts]" "''localhost''" "[''80/tcp'']"]
  by (simp add: ForExposedPort_def NewHostPortStrategy_def demo_target_def startupTimeout_def)

text \<open>
  The claim as stated fails: the port map of \<open>demo_target\<close> is empty at the first lookup
  only, and the call fails there although the next lookup would have found a port.
\<close>

theorem exposed_port_empty_lookup_fails:
  "WaitUntilReady (ForExposedPort demo_target) demo_target [] =
     Some (Some (ErrorString ''no port to wait for''), [EvWithTimeout 60000000000, EvHost, EvPorts])
   \<and> t_Ports demo_target [EvWithTimeout 60000000000, EvHost, EvPorts] = ([''80/tcp''], None)"
  by code_simp

subsection \<open>The internal check\<close>

lemma internalCheck_no_sleep:
  assumes "internalCheck t command tr = Some y"
  shows "filter is_EvSleep (snd y) = filter is_EvSleep tr"
  by (rule internalCheck.raw_induct [rotated 1, OF assms])
     (auto split: option.splits prod.splits if_splits)

text \<open>
  C2, as the code has it. In an iteration of the internal check in which the context is
  not done, the target is usable and the command runs: exit code 0 ends the wait with
  success; exit code 126 returns the error \<open>/bin/sh command not executable\<close> at once,
  without a retry; any other exit code starts the next iteration at once, from the trace
  of this one. The internal check never sleeps: whenever it returns, the sleeps of the
  trace are those that were there before.
\<close>

theorem internal_check_exit_codes:
  assumes "t_ctxErr t tr = None"
    and "checkTarget t (tr @ [EvCtxErr]) = None"
    and "t_Exec t (tr @ [EvCtxErr, EvCheckTarget]) [''/bin/sh'', ''-c'', command] = (exitCode, None)"
  shows "(exitCode = 0 \<longrightarrow>
            internalCheck t command tr =
              Some (None, tr @ [EvCtxErr, EvCheckTarget, EvExec [''/bin/sh'', ''-c'', command]]))
       \<and> (exitCode = 126 \<longrightarrow>
            internalCheck t command tr =
              Some (Some (ErrorString ''/bin/sh command not executable''),
                    tr @ [EvCtxErr, EvCheckTarget, EvExec [''/bin/sh'', ''-c'', command]]))
       \<and> (exitCode \<noteq> 0 \<and> exitCode \<noteq> 126 \<longrightarrow>
            internalCheck t command tr =
              internalCheck t command (tr @ [EvCtxErr, EvCheckTarget, EvExec [''/bin/sh'', ''-c'', command]]))
       \<and> (\<forall>r tr'. internalCheck t command tr = Some (r, tr') \<longrightarrow>
            filter is_EvSleep tr' = filter is_EvSleep tr)"
proof -
  have unfold: "internalCheck t command tr =
      (if exitCode = 0
       then Some (None, tr @ [EvCtxErr, EvCheckTarget, EvExec [''/bin/sh'', ''-c'', command]])
       else if exitCode = 126
       then Some (Some (ErrorString ''/bin/sh command not executable''),
                  tr @ [EvCtxErr, EvCheckTarget, EvExec [''/bin/sh'', ''-c'', command]])
       else internalCheck t command (tr @ [EvCtxErr, EvCheckTarget, EvExec [''/bin/sh'', ''-c'', command]]))"
    by (subst internalCheck.simps) (simp add: assms)
  have quiet: "filter is_EvSleep tr' = filter is_EvSleep tr"
    if "internalCheck t command tr = Some (r, tr')" for r tr'
    using internalCheck_no_sleep [OF that] by simp
  from unfold quiet show ?thesis by auto
qed

text \<open>The theorem at \<open>demo_target\<close>, once the probe has run: the exit code is 0.\<close>

theorem internal_check_exit_codes_witness:
  "t_ctxErr demo_target [EvExec []] = None
   \<and> checkTarget demo_target [EvExec [], EvCtxErr] = None
   \<and> t_Exec demo_target [EvExec [], EvCtxErr, EvCheckTarget] [''/bin/sh'', ''-c'', ''probe''] = (0, None)
   \<and> internalCheck demo_target ''probe'' [EvExec []] =
       Some (None, [EvExec [], EvCtxErr, EvCheckTarget, EvExec [''/bin/sh'', ''-c'', ''probe'']])"
  using internal_check_exit_codes [of demo_target "[EvExec []]" "''probe''" 0]
  by (simp add: demo_target_def is_EvExec_def)

text \<open>
  The claim as stated fails: the first probe of \<open>demo_target\<close> exits with 1, and the second
  probe follows the first with the two checks in between and no sleep.
\<close>

theorem internal_check_retries_without_sleep:
  "internalCheck demo_target ''probe'' [] =
     Some (None, [EvCtxErr, EvCheckTarget, EvExec [''/bin/sh'', ''-c'', ''probe''],
                  EvCtxErr, EvCheckTarget, EvExec [''/bin/sh'', ''-c'', ''probe'']])"
  by code_simp

subsection \<open>The external check\<close>

lemma externalCheck_errors:
  assumes "externalCheck t w proto address tr = Some y"
  shows "(\<forall>e. fst y = Some e \<longrightarrow>
           (\<exists>tr1. snd y = tr1 @ [EvCheckTarget] \<and> checkTarget t tr1 = Some e)
         \<or> (\<exists>tr1. snd y = tr1 @ [EvCheckTarget, EvDial proto address]
                \<and> t_Dial t (tr1 @ [EvCheckTarget]) proto address = Some e \<and> \<not> dialRefused t e))
       \<and> (fst y = None \<longrightarrow> (\<exists>tr1. snd y = tr1 @ [EvDial proto address, EvConnClose]))"
  by (rule externalCheck.raw_induct [rotated 1, OF assms])
     (auto split: option.splits prod.splits if_splits)

lemma probePort_after_external:
  assumes "externalCheck t w (port_Proto t port) (JoinHostPort ip (Itoa (port_Int t port))) tr
             = Some (None, tr')"
  shows "probePort t w ip internalPort port tr =
      internalCheck t (buildInternalCheckCommand (port_Int t internalPort)) tr'"
  using assms by (simp add: probePort_def Let_def)

text \<open>
  C3. In an iteration of the external check in which the target is usable: a dial error
  that is a connection-refused error makes the loop sleep one poll interval and run again;
  any other dial error is returned at once; a connection is closed and ends the check with
  success. An error the external check returns is never a refused dial: it is the error of
  \<open>checkTarget\<close>, or a dial error that is not a connection-refused error. When the
  external check succeeds, its trace ends with the dial and the close of the connection,
  and the rest of the wait is the internal check.
\<close>

theorem external_check_dial_errors:
  assumes "checkTarget t tr = None"
  shows "(\<forall>e. t_Dial t (tr @ [EvCheckTarget]) proto address = Some e \<and> dialRefused t e \<longrightarrow>
            externalCheck t w proto address tr =
              externalCheck t w proto address (tr @ [EvCheckTarget, EvDial proto address, EvSleep w]))
       \<and> (\<forall>e. t_Dial t (tr @ [EvCheckTarget]) proto address = Some e \<and> \<not> dialRefused t e \<longrightarrow>
            externalCheck t w proto address tr = Some (Some e, tr @ [EvCheckTarget, EvDial proto address]))
       \<and> (t_Dial t (tr @ [EvCheckTarget]) proto address = None \<longrightarrow>
            externalCheck t w proto address tr =
              Some (None, tr @ [EvCheckTarget, EvDial proto address, EvConnClose]))
       \<and> (\<forall>e tr'. externalCheck t w proto address tr = Some (Some e, tr') \<longrightarrow>
            (\<exists>tr1. tr' = tr1 @ [EvCheckTarget] \<and> checkTarget t tr1 = Some e)
          \<or> (\<exists>tr1. tr' = tr1 @ [EvCheckTarget, EvDial proto address]
                \<and> t_Dial t (tr1 @ [EvCheckTarget]) proto address = Some e \<and> \<not> dialRefused t e))
       \<and> (\<forall>tr' ip internalPort port.
            proto = port_Proto t port \<and> address = JoinHostPort ip (Itoa (port_Int t port))
            \<and> externalCheck t w proto address tr = Some (None, tr') \<longrightarrow>
            (\<exists>tr1. tr' = tr1 @ [EvDial proto address, EvConnClose])
            \<and> probePort t w ip internalPort port tr =
                internalCheck t (buildInternalCheckCommand (port_Int t internalPort)) tr')"
proof -
  have refused: "externalCheck t w proto address tr =
      externalCheck t w proto address (tr @ [EvCheckTarget, EvDial proto address, EvSleep w])"
    if "t_Dial t (tr @ [EvCheckTarget]) proto address = Some e" and "dialRefused t e" for e
    by (subst externalCheck.simps) (simp add: assms that)
  have fatal: "externalCheck t w proto address tr = Some (Some e, tr @ [EvCheckTarget, EvDial proto address])"
    if "t_Dial t (tr @ [EvCheckTarget]) proto address = Some e" and "\<not> dialRefused t e" for e
    by (subst externalCheck.simps) (simp add: assms that)
  have connected: "externalCheck t w proto address tr =
      Some (None, tr @ [EvCheckTarget, EvDial proto address, EvConnClose])"
    if "t_Dial t (tr @ [EvCheckTarget]) proto address = None"
    by (subst externalCheck.simps) (simp add: assms that)
  have surfaced: "(\<exists>tr1. tr' = tr1 @ [EvCheckTarget] \<and> checkTarget t tr1 = Some e)
      \<or> (\<exists>tr1. tr' = tr1 @ [EvCheckTarget, EvDial proto address]
            \<and> t_Dial t (tr1 @ [EvCheckTarget]) proto address = Some e \<and> \<not> dialRefused t e)"
    if "externalCheck t w proto address tr = Some (Some e, tr')" for e tr'
    using externalCheck_errors [OF that] by simp
  have closed: "\<exists>tr1. tr' = tr1 @ [EvDial proto address, EvConnClose]"
    if "externalCheck t w proto address tr = Some (None, tr')" for tr'
    using externalCheck_errors [OF that] by simp
  have proceeds: "probePort t w ip internalPort port tr =
      internalCheck t (buildInternalCheckCommand (port_Int t internalPort)) tr'"
    if "proto = port_Proto t port" and "address = JoinHostPort ip (Itoa (port_Int t port))"
      and "externalCheck t w proto address tr = Some (None, tr')" for tr' ip internalPort port
    using that probePort_after_external by blast
  from refused fatal connected surfaced closed proceeds show ?thesis
    by blast
qed

text \<open>The theorem at \<open>demo_target\<close>, whose first dial is refused.\<close>

theorem external_check_dial_errors_witness:
  "checkTarget demo_target [] = None
   \<and> externalCheck demo_target 100 ''tcp'' ''localhost:80'' [] =
       externalCheck demo_target 100 ''tcp'' ''localhost:80''
         [EvCheckTarget, EvDial ''tcp'' ''localhost:80'', EvSleep 100]"
  using external_check_dial_errors [of demo_target "[]" "''tcp''" "''localhost:80''" 100]
  by (simp add: demo_target_def dialRefused_def is_EvDial_def)

section \<open>Properties of the couchbase bootstrap\<close>

subsection \<open>Evaluation on the examples\<close>

lemma digits_small: "n < b \<Longrightarrow> digits b n = [digit_char n]"
  by (subst digits.simps) simp

lemma digits_step: "2 \<le> b \<Longrightarrow> b \<le> n \<Longrightarrow> digits b n = digits b (n div b) @ [digit_char (n mod b)]"
  by (subst digits.simps) simp

lemma Itoa_examples [simp]: "Itoa 32768 = ''32768''" "Itoa 100 = ''100''" "Itoa 0 = ''0''" "Itoa 256 = ''256''"
  by (simp_all add: Itoa_def digits_small digits_step digit_char_def)

lemmas port_defs = MGMT_PORT_def MGMT_SSL_PORT_def VIEW_PORT_def VIEW_SSL_PORT_def QUERY_PORT_def
  QUERY_SSL_PORT_def SEARCH_PORT_def SEARCH_SSL_PORT_def ANALYTICS_PORT_def ANALYTICS_SSL_PORT_def
  EVENTING_PORT_def EVENTING_SSL_PORT_def KV_PORT_def KV_SSL_PORT_def

lemmas step_defs = waitUntilNodeIsOnline_def initializeIsEnterprise_def renameNode_def
  initializeServices_def setMemoryQuotas_def configureAdminUser_def configureExternalPorts_def
  configureIndexer_def waitUntilAllNodesAreHealthy_def requestStep_def doHttpRequest_def getUrl_def
  mkRequest_def getInternalIPAddress_def getEnabledServices_def quotaBody_def externalPortsBody_def
  externalPortsTable_def
  healthStrategies_def HTTPStrategy_WaitUntilReady_def clusterInitFunc_def requested_def
  applyOptions_def defaultConfig_def exposePorts_def Let_def

lemmas demo_defs = demo_cluster_def WithUsername_def WithBucket_def WithServices_def NewBucket_def

subsection \<open>The pipeline stops at the first failure\<close>




subsection \<open>The compound strategy\<close>

lemma MultiStrategy_append:
  "MultiStrategy_WaitUntilReady (ss @ ts) tr =
     (case MultiStrategy_WaitUntilReady ss tr of
        None \<Rightarrow> None
      | Some (Some e, tr') \<Rightarrow> Some (Some e, tr')
      | Some (None, tr') \<Rightarrow> MultiStrategy_WaitUntilReady ts tr')"
  by (induction ss arbitrary: tr) (auto split: option.splits)

lemma MultiStrategy_success_prefix:
  assumes "MultiStrategy_WaitUntilReady ss tr = Some (None, tr')" and "i < length ss"
  shows "\<exists>tr1 tr2. MultiStrategy_WaitUntilReady (take i ss) tr = Some (None, tr1)
           \<and> (ss ! i) tr1 = Some (None, tr2)"
proof -
  have "ss = take i ss @ (ss ! i) # drop (Suc i) ss"
    using assms(2) by (simp add: id_take_nth_drop)
  then have "MultiStrategy_WaitUntilReady (take i ss @ (ss ! i) # drop (Suc i) ss) tr = Some (None, tr')"
    using assms(1) by simp
  then show ?thesis
    by (auto simp: MultiStrategy_append split: option.splits prod.splits)
qed

lemma MultiStrategy_all_succeed:
  assumes "\<forall>i<length ss. \<exists>tr1 tr2. MultiStrategy_WaitUntilReady (take i ss) tr = Some (None, tr1)
             \<and> (ss ! i) tr1 = Some (None, tr2)"
  shows "\<exists>tr'. MultiStrategy_WaitUntilReady ss tr = Some (None, tr')"
  using assms
proof (induction ss rule: rev_induct)
  case Nil
  then show ?case by simp
next
  case (snoc s ss)
  from snoc.prems have "\<exists>tr1 tr2. MultiStrategy_WaitUntilReady (take (length ss) (ss @ [s])) tr = Some (None, tr1)
      \<and> ((ss @ [s]) ! length ss) tr1 = Some (None, tr2)"
    by (metis length_append_singleton lessI)
  then obtain tr1 tr2 where "MultiStrategy_WaitUntilReady ss tr = Some (None, tr1)" and "s tr1 = Some (None, tr2)"
    by auto
  then show ?case
    by (simp add: MultiStrategy_append)
qed

lemma MultiStrategy_HTTP_step:
  "MultiStrategy_WaitUntilReady (HTTPStrategy_WaitUntilReady c hs # ss) tr =
     (case c_WaitHTTP c tr hs of
        Some e \<Rightarrow> Some (Some e, tr @ [EvWaitHTTP hs])
      | None \<Rightarrow> MultiStrategy_WaitUntilReady ss (tr @ [EvWaitHTTP hs]))"
  by (simp add: HTTPStrategy_WaitUntilReady_def split: option.splits)

lemma MultiStrategy_HTTP:
  assumes "MultiStrategy_WaitUntilReady (map (HTTPStrategy_WaitUntilReady c) hss) tr = Some (r, tr')"
  shows "(r = None \<and> tr' = tr @ map EvWaitHTTP hss)
       \<or> (\<exists>i<length hss. r \<noteq> None \<and> r = c_WaitHTTP c (tr @ map EvWaitHTTP (take i hss)) (hss ! i)
              \<and> tr' = tr @ map EvWaitHTTP (take (Suc i) hss))"
  using assms
proof (induction hss arbitrary: tr)
  case Nil
  then show ?case by simp
next
  case (Cons hs hss)
  from Cons.prems have run: "(case c_WaitHTTP c tr hs of
        Some e \<Rightarrow> Some (Some e, tr @ [EvWaitHTTP hs])
      | None \<Rightarrow> MultiStrategy_WaitUntilReady (map (HTTPStrategy_WaitUntilReady c) hss) (tr @ [EvWaitHTTP hs]))
      = Some (r, tr')"
    by (simp only: list.map MultiStrategy_HTTP_step)
  show ?case
  proof (cases "c_WaitHTTP c tr hs")
    case None
    with run have "MultiStrategy_WaitUntilReady (map (HTTPStrategy_WaitUntilReady c) hss) (tr @ [EvWaitHTTP hs]) = Some (r, tr')"
      by (simp only: option.case)
    from Cons.IH [OF this] show ?thesis
    proof
      assume "r = None \<and> tr' = (tr @ [EvWaitHTTP hs]) @ map EvWaitHTTP hss"
      then show ?thesis by simp
    next
      assume "\<exists>i<length hss. r \<noteq> None \<and> r = c_WaitHTTP c ((tr @ [EvWaitHTTP hs]) @ map EvWaitHTTP (take i hss)) (hss ! i)
              \<and> tr' = (tr @ [EvWaitHTTP hs]) @ map EvWaitHTTP (take (Suc i) hss)"
      then obtain i where "i < length hss" "r \<noteq> None"
        "r = c_WaitHTTP c ((tr @ [EvWaitHTTP hs]) @ map EvWaitHTTP (take i hss)) (hss ! i)"
        "tr' = (tr @ [EvWaitHTTP hs]) @ map EvWaitHTTP (take (Suc i) hss)" by blast
      then have "Suc i < length (hs # hss) \<and> r \<noteq> None
          \<and> r = c_WaitHTTP c (tr @ map EvWaitHTTP (take (Suc i) (hs # hss))) ((hs # hss) ! Suc i)
          \<and> tr' = tr @ map EvWaitHTTP (take (Suc (Suc i)) (hs # hss))"
        by simp
      then show ?thesis by blast
    qed
  next
    case (Some e)
    with run have "r = Some e" "tr' = tr @ [EvWaitHTTP hs]"
      by simp_all
    with Some have "0 < length (hs # hss) \<and> r \<noteq> None
        \<and> r = c_WaitHTTP c (tr @ map EvWaitHTTP (take 0 (hs # hss))) ((hs # hss) ! 0)
        \<and> tr' = tr @ map EvWaitHTTP (take (Suc 0) (hs # hss))"
      by simp
    then show ?thesis by blast
  qed
qed

text \<open>
  C8. The compound strategy evaluates its sub-strategies in listed order. If the
  sub-strategies before \<open>s\<close> succeed and \<open>s\<close> fails, the compound returns the error
  of \<open>s\<close> with the trace \<open>s\<close> left: the later sub-strategies are not evaluated.
  The compound succeeds if and only if every sub-strategy succeeds, each evaluated on the
  trace the ones before it left. For the compound that \<open>waitUntilAllNodesAreHealthy\<close>
  builds from the enabled services: it either succeeds after probing every strategy of the
  list, or it returns the answer of the first probe that fails, having made no probe after
  that one.
\<close>

theorem compound_strategy_sequential:
  "(\<forall>tr1 e tr2.
      MultiStrategy_WaitUntilReady pre tr = Some (None, tr1) \<and> s tr1 = Some (Some e, tr2) \<longrightarrow>
      MultiStrategy_WaitUntilReady (pre @ s # post) tr = Some (Some e, tr2))
   \<and> ((\<exists>tr'. MultiStrategy_WaitUntilReady ss tr = Some (None, tr')) \<longleftrightarrow>
        (\<forall>i<length ss. \<exists>tr1 tr2.
            MultiStrategy_WaitUntilReady (take i ss) tr = Some (None, tr1)
            \<and> (ss ! i) tr1 = Some (None, tr2)))
   \<and> (\<forall>r st'. waitUntilAllNodesAreHealthy c st = Some (r, st') \<longrightarrow>
         config st' = config st
         \<and> ((r = None \<and> events st' = events st @ map EvWaitHTTP (healthStrategies c (config st)))
            \<or> (\<exists>i<length (healthStrategies c (config st)).
                  r \<noteq> None
                  \<and> r = c_WaitHTTP c (events st @ map EvWaitHTTP (take i (healthStrategies c (config st))))
                         (healthStrategies c (config st) ! i)
                  \<and> events st' = events st @ map EvWaitHTTP (take (Suc i) (healthStrategies c (config st))))))"
proof -
  have abort: "MultiStrategy_WaitUntilReady (pre @ s # post) tr = Some (Some e, tr2)"
    if "MultiStrategy_WaitUntilReady pre tr = Some (None, tr1)" and "s tr1 = Some (Some e, tr2)"
    for tr1 e tr2
    using that by (simp add: MultiStrategy_append)
  have iff: "(\<exists>tr'. MultiStrategy_WaitUntilReady ss tr = Some (None, tr')) \<longleftrightarrow>
        (\<forall>i<length ss. \<exists>tr1 tr2.
            MultiStrategy_WaitUntilReady (take i ss) tr = Some (None, tr1)
            \<and> (ss ! i) tr1 = Some (None, tr2))"
    using MultiStrategy_success_prefix MultiStrategy_all_succeed by blast
  have health: "config st' = config st
         \<and> ((r = None \<and> events st' = events st @ map EvWaitHTTP (healthStrategies c (config st)))
            \<or> (\<exists>i<length (healthStrategies c (config st)).
                  r \<noteq> None
                  \<and> r = c_WaitHTTP c (events st @ map EvWaitHTTP (take i (healthStrategies c (config st))))
                         (healthStrategies c (config st) ! i)
                  \<and> events st' = events st @ map EvWaitHTTP (take (Suc i) (healthStrategies c (config st)))))"
    if ret: "waitUntilAllNodesAreHealthy c st = Some (r, st')" for r st'
  proof -
    from ret obtain tr' where run: "MultiStrategy_WaitUntilReady
        (map (HTTPStrategy_WaitUntilReady c) (healthStrategies c (config st))) (events st) = Some (r, tr')"
      and st': "st' = st\<lparr>events := tr'\<rparr>"
      by (auto simp: waitUntilAllNodesAreHealthy_def split: option.splits)
    from MultiStrategy_HTTP [OF run] st' show ?thesis by auto
  qed
  from abort iff health show ?thesis by blast
qed

text \<open>The theorem at the demo cluster: the second of three probes fails.\<close>

theorem compound_strategy_sequential_witness:
  "MultiStrategy_WaitUntilReady
     [HTTPStrategy_WaitUntilReady demo_cluster probe_ok, HTTPStrategy_WaitUntilReady demo_cluster probe_b1,
      HTTPStrategy_WaitUntilReady demo_cluster probe_ok] [] =
   Some (Some (ErrorString ''timeout''), [EvWaitHTTP probe_ok, EvWaitHTTP probe_b1])"
proof -
  have first: "MultiStrategy_WaitUntilReady [HTTPStrategy_WaitUntilReady demo_cluster probe_ok] []
      = Some (None, [EvWaitHTTP probe_ok])"
    by (simp add: HTTPStrategy_WaitUntilReady_def demo_cluster_def probe_ok_def)
  have second: "HTTPStrategy_WaitUntilReady demo_cluster probe_b1 [EvWaitHTTP probe_ok]
      = Some (Some (ErrorString ''timeout''), [EvWaitHTTP probe_ok, EvWaitHTTP probe_b1])"
    by (simp add: HTTPStrategy_WaitUntilReady_def demo_cluster_def probe_b1_def)
  from compound_strategy_sequential
    [where pre = "[HTTPStrategy_WaitUntilReady demo_cluster probe_ok]" and tr = "[]"
       and s = "HTTPStrategy_WaitUntilReady demo_cluster probe_b1"
       and post = "[HTTPStrategy_WaitUntilReady demo_cluster probe_ok]"]
    first second
  show ?thesis by fastforce
qed


subsection \<open>The edition is checked before the node is renamed\<close>

lemma getUrl_ok:
  assumes "getUrl c port path tr = ((url, None), tr')"
  shows "suffix path url \<and> tr' = tr @ [EvHost, EvMappedPort port]"
proof -
  have "suffix path (''http://'' @ host @ '':'' @ n @ path)" for host n :: string
    by (intro suffix_appendI) simp
  with assms show ?thesis
    by (auto simp: getUrl_def simp del: append.simps split: prod.splits option.splits)
qed

lemma doHttpRequest_ok:
  assumes "doHttpRequest c port path method body auth st = ((response, None), st')"
  shows "\<exists>url. suffix path url
           \<and> st' = st\<lparr>events := events st @ [EvHost, EvMappedPort port, EvHttpDo (mkRequest st method url body auth)]\<rparr>"
proof -
  from assms obtain url tr where u: "getUrl c port path (events st) = ((url, None), tr)"
    and st': "st' = st\<lparr>events := tr @ [EvHttpDo (mkRequest st method url body auth)]\<rparr>"
    by (auto simp: doHttpRequest_def split: prod.splits option.splits sum.splits)
  from getUrl_ok [OF u] st' show ?thesis by auto
qed

lemma pools_not_rename:
  assumes "suffix ''/pools'' u"
  shows "\<not> suffix ''/node/controller/rename'' u"
proof
  assume "suffix ''/node/controller/rename'' u"
  from suffix_same_cases [OF assms this] show False
    by (simp add: suffix_to_prefix)
qed

text \<open>
  C7. Take a configuration that enables the analytics or the eventing service, on a
  cluster of a non-enterprise edition: the container is obtained, the node comes online,
  and the request that reads the edition answers with a flag that is false. Then
  \<open>StartContainer\<close> returns the error that names the service that needs the enterprise
  edition, in the state the edition request left: the trace holds no rename-node request
  and no lookup of the container address, so the rename step and all later steps have not
  run.
\<close>

theorem enterprise_services_checked_before_rename:
  assumes "cfg = applyOptions c opts"
    and "contains (enabledServices cfg) (analytics c) \<or> contains (enabledServices cfg) (eventing c)"
    and "c_GenericContainer c [] (imageName cfg) (exposePorts (enabledServices cfg)) = None"
    and "waitUntilNodeIsOnline c (requested cfg) = (None, st1)"
    and "doHttpRequest c MGMT_PORT ''/pools'' ''GET'' [] False st1 = ((response, None), st2)"
    and "\<not> gjson_Bool c response ''isEnterprise''"
  shows "StartContainer c opts =
           Some (Some (ErrorString
                   (if contains (enabledServices cfg) (analytics c)
                    then ''the Analytics Service is only supported with the Enterprise version''
                    else ''the Eventing Service is only supported with the Enterprise version'')),
                 st2\<lparr>config := (config st2)\<lparr>isEnterprise := False\<rparr>\<rparr>)
       \<and> filter is_rename_request (events st2) = []
       \<and> EvContainerIP \<notin> set (events st2)"
proof -
  from assms(4) have st1: "st1 = (requested cfg)\<lparr>events := events (requested cfg) @
      [EvWaitHTTP \<lparr>hs_Path = ''/pools'', hs_Port = MGMT_PORT, hs_Credentials = None,
                  hs_StatusCodeMatcher = StatusIsOK, hs_ResponseMatcher = None\<rparr>]\<rparr>"
    by (auto simp: waitUntilNodeIsOnline_def Let_def)
  from doHttpRequest_ok [OF assms(5)] obtain url where url: "suffix ''/pools'' url"
    and st2: "st2 = st1\<lparr>events := events st1 @ [EvHost, EvMappedPort MGMT_PORT,
        EvHttpDo (mkRequest st1 ''GET'' url [] False)]\<rparr>"
    by blast
  have cfg2: "config st2 = cfg"
    by (simp add: st2 st1 requested_def)
  have enterprise: "initializeIsEnterprise c st1 =
      (Some (ErrorString
               (if contains (enabledServices cfg) (analytics c)
                then ''the Analytics Service is only supported with the Enterprise version''
                else ''the Eventing Service is only supported with the Enterprise version'')),
       st2\<lparr>config := (config st2)\<lparr>isEnterprise := False\<rparr>\<rparr>)"
    using assms(2,5,6) cfg2 by (auto simp: initializeIsEnterprise_def Let_def)
  have steps: "clusterInitFunc c cfg =
      [\<lambda>st. Some (waitUntilNodeIsOnline c st), \<lambda>st. Some (initializeIsEnterprise c st)]
      @ drop 2 (clusterInitFunc c cfg)"
    by (simp add: clusterInitFunc_def)
  have run: "runClusterInit (clusterInitFunc c cfg) (requested cfg) =
      Some (Some (ErrorString
               (if contains (enabledServices cfg) (analytics c)
                then ''the Analytics Service is only supported with the Enterprise version''
                else ''the Eventing Service is only supported with the Enterprise version'')),
            st2\<lparr>config := (config st2)\<lparr>isEnterprise := False\<rparr>\<rparr>)"
    by (subst steps) (simp add: assms(4) enterprise)
  have start: "StartContainer c opts =
      Some (Some (ErrorString
               (if contains (enabledServices cfg) (analytics c)
                then ''the Analytics Service is only supported with the Enterprise version''
                else ''the Eventing Service is only supported with the Enterprise version'')),
            st2\<lparr>config := (config st2)\<lparr>isEnterprise := False\<rparr>\<rparr>)"
    using assms(1,3) run by (simp add: StartContainer_def Let_def)
  have quiet: "filter is_rename_request (events st2) = []" "EvContainerIP \<notin> set (events st2)"
    using pools_not_rename [OF url]
    by (simp_all add: st2 st1 requested_def is_rename_request_def mkRequest_def)
  from start quiet show ?thesis by simp
qed

text \<open>The theorem at the demo cluster, with the analytics service enabled.\<close>

theorem enterprise_services_checked_before_rename_witness:
  "StartContainer demo_cluster [WithServices [kv demo_cluster, analytics demo_cluster]] =
     Some (Some (ErrorString ''the Analytics Service is only supported with the Enterprise version''),
           st_pools\<lparr>config := (config st_pools)\<lparr>isEnterprise := False\<rparr>\<rparr>)
   \<and> filter is_rename_request (events st_pools) = []
   \<and> EvContainerIP \<notin> set (events st_pools)"
proof -
  have h2: "contains (enabledServices cfg_analytics) (analytics demo_cluster)
      \<or> contains (enabledServices cfg_analytics) (eventing demo_cluster)"
    by (simp add: cfg_analytics_def step_defs demo_defs)
  have h3: "c_GenericContainer demo_cluster [] (imageName cfg_analytics)
      (exposePorts (enabledServices cfg_analytics)) = None"
    by (simp add: demo_cluster_def)
  have h4: "waitUntilNodeIsOnline demo_cluster (requested cfg_analytics) = (None, st_online)"
    by (simp add: st_online_def waitUntilNodeIsOnline_def Let_def demo_cluster_def)
  have h5: "doHttpRequest demo_cluster MGMT_PORT ''/pools'' ''GET'' [] False st_online = ((''{}'', None), st_pools)"
    by (simp add: st_pools_def doHttpRequest_def getUrl_def mkRequest_def demo_cluster_def port_defs)
  have h6: "\<not> gjson_Bool demo_cluster ''{}'' ''isEnterprise''"
    by (simp add: demo_cluster_def)
  have a: "contains (enabledServices cfg_analytics) (analytics demo_cluster)"
    by (simp add: cfg_analytics_def step_defs demo_defs)
  from enterprise_services_checked_before_rename [OF cfg_analytics_def h2 h3 h4 h5 h6] a
  show ?thesis by simp
qed

subsection \<open>Errors that do not reach the caller\<close>

lemma lookupPorts_trace:
  "snd (lookupPorts c kps (body, tr)) = tr @ map EvMappedPort (map snd kps)"
  by (induction kps arbitrary: body tr) auto

lemma lookupPorts_other_key:
  "k \<notin> fst ` set kps \<Longrightarrow> map_of (fst (lookupPorts c kps (body, tr))) k = map_of body k"
  by (induction kps arbitrary: body tr) (auto simp: update_conv')

lemma lookupPorts_key:
  "k \<notin> fst ` set post \<Longrightarrow>
   map_of (fst (lookupPorts c (pre @ (k, port) # post) (body, tr))) k =
     Some (fst (t_MappedPort c (tr @ map EvMappedPort (map snd pre)) port))"
  by (induction pre arbitrary: body tr) (auto simp: lookupPorts_other_key update_conv')

lemma externalPortsTable_kv:
  "contains (enabledServices cfg) (kv c) \<Longrightarrow>
   \<exists>post. externalPortsTable c cfg =
       [(''mgmt'', MGMT_PORT), (''mgmtSSL'', MGMT_SSL_PORT)] @ (''kv'', KV_PORT) # post
     \<and> ''kv'' \<notin> fst ` set post"
  by (auto simp: externalPortsTable_def)

lemma waitMappedPort_prints:
  assumes "t_select t tr w = None" and "checkTarget t (tr @ [EvSelect w]) = None"
    and "t_MappedPort t (tr @ [EvSelect w, EvCheckTarget]) p = (port', Some e)"
  shows "waitMappedPort t w p i [] err tr =
           waitMappedPort t w p (i + 1) port' (Some e)
             (tr @ [EvSelect w, EvCheckTarget, EvMappedPort p, EvPrintf (i + 1) port' e])"
  by (subst waitMappedPort.simps) (simp add: assms)

text \<open>
  C5, as the code has it. In \<open>configureExternalPorts\<close> the lookups for the body never
  end the step: the host and every port of the table are looked up whatever the lookups
  answer, and the value returned is sent, also when it comes with an error (shown for the
  host name and for the KV port). The error the step returns is exactly the error of its
  HTTP request. In the mapped-port poll of the host-port strategy, a \<open>MappedPort\<close>
  error that comes with an empty port is printed and the poll goes on.
\<close>

theorem external_port_lookup_errors_dropped:
  "snd (externalPortsBody c cfg tr) = tr @ EvHost # map EvMappedPort (map snd (externalPortsTable c cfg))
   \<and> map_of (fst (externalPortsBody c cfg tr)) ''hostname'' = Some (fst (t_Host c tr))
   \<and> (contains (enabledServices cfg) (kv c) \<longrightarrow>
        map_of (fst (externalPortsBody c cfg tr)) ''kv'' =
          Some (fst (t_MappedPort c (tr @ [EvHost, EvMappedPort MGMT_PORT, EvMappedPort MGMT_SSL_PORT]) KV_PORT)))
   \<and> fst (configureExternalPorts c st) =
        snd (fst (doHttpRequest c MGMT_PORT ''/node/controller/setupAlternateAddresses/external'' ''PUT''
                    (fst (externalPortsBody c (config st) (events st))) True
                    (st\<lparr>events := snd (externalPortsBody c (config st) (events st))\<rparr>)))
   \<and> (\<forall>w p i err port' e.
         t_select c tr w = None \<and> checkTarget c (tr @ [EvSelect w]) = None
         \<and> t_MappedPort c (tr @ [EvSelect w, EvCheckTarget]) p = (port', Some e) \<longrightarrow>
         waitMappedPort c w p i [] err tr =
           waitMappedPort c w p (i + 1) port' (Some e)
             (tr @ [EvSelect w, EvCheckTarget, EvMappedPort p, EvPrintf (i + 1) port' e]))"
proof -
  have trace: "snd (externalPortsBody c cfg tr) = tr @ EvHost # map EvMappedPort (map snd (externalPortsTable c cfg))"
    by (simp add: externalPortsBody_def lookupPorts_trace)
  have "''hostname'' \<notin> fst ` set (externalPortsTable c cfg)"
    by (auto simp: externalPortsTable_def)
  then have host: "map_of (fst (externalPortsBody c cfg tr)) ''hostname'' = Some (fst (t_Host c tr))"
    by (simp add: externalPortsBody_def lookupPorts_other_key)
  have kvport: "map_of (fst (externalPortsBody c cfg tr)) ''kv'' =
      Some (fst (t_MappedPort c (tr @ [EvHost, EvMappedPort MGMT_PORT, EvMappedPort MGMT_SSL_PORT]) KV_PORT))"
    if "contains (enabledServices cfg) (kv c)"
  proof -
    from externalPortsTable_kv [OF that] obtain post where
      tab: "externalPortsTable c cfg = [(''mgmt'', MGMT_PORT), (''mgmtSSL'', MGMT_SSL_PORT)] @ (''kv'', KV_PORT) # post"
      and fresh: "''kv'' \<notin> fst ` set post" by blast
    show ?thesis
      unfolding externalPortsBody_def tab
      by (subst lookupPorts_key [OF fresh]) simp
  qed
  have step: "fst (configureExternalPorts c st) =
        snd (fst (doHttpRequest c MGMT_PORT ''/node/controller/setupAlternateAddresses/external'' ''PUT''
                    (fst (externalPortsBody c (config st) (events st))) True
                    (st\<lparr>events := snd (externalPortsBody c (config st) (events st))\<rparr>)))"
    by (simp add: configureExternalPorts_def requestStep_def split: prod.splits)
  from trace host kvport step waitMappedPort_prints show ?thesis
    by blast
qed

text \<open>The theorem at the demo cluster, whose KV port has no mapping: the empty port is sent.\<close>

theorem external_port_lookup_errors_dropped_witness:
  "contains (enabledServices (defaultConfig demo_cluster)) (kv demo_cluster)
   \<and> map_of (fst (externalPortsBody demo_cluster (defaultConfig demo_cluster) [])) ''kv'' = Some []"
proof -
  have a: "contains (enabledServices (defaultConfig demo_cluster)) (kv demo_cluster)"
    by (simp add: defaultConfig_def demo_cluster_def)
  have b: "fst (t_MappedPort demo_cluster [EvHost, EvMappedPort MGMT_PORT, EvMappedPort MGMT_SSL_PORT] KV_PORT) = []"
    by (simp add: demo_cluster_def)
  from external_port_lookup_errors_dropped [of demo_cluster "defaultConfig demo_cluster" "[]"] a b
  show ?thesis by simp
qed

text \<open>
  The claim as stated fails: at the demo cluster the lookup of the KV port fails during
  the external-address-mapping step, and the step returns no error.
\<close>

theorem external_port_lookup_failure_not_propagated:
  "t_MappedPort demo_cluster
     (events (requested (defaultConfig demo_cluster)) @ [EvHost, EvMappedPort MGMT_PORT, EvMappedPort MGMT_SSL_PORT])
     KV_PORT = ([], Some (ErrorString ''port not found''))
   \<and> fst (configureExternalPorts demo_cluster (requested (defaultConfig demo_cluster))) = None"
  by (simp add: step_defs port_defs demo_defs)


subsection \<open>Buckets are created and probed in order\<close>

lemma bucketOps_append [simp]: "bucketOps (tr @ tr') = bucketOps tr @ bucketOps tr'"
  by (simp add: bucketOps_def)

lemma bucketOps_simps [simp]:
  "bucketOps [] = []" "bucketOps (ev # tr) = bucketOp ev @ bucketOps tr"
  by (simp_all add: bucketOps_def)

lemma bucketOp_simps [simp]:
  "bucketOp EvHost = []" "bucketOp (EvMappedPort p) = []" "bucketOp EvBackOff = []"
  by (simp_all add: bucketOp_def)

lemma query_not_buckets:
  assumes "suffix ''/query/service'' u"
  shows "\<not> suffix ''/pools/default/buckets'' u"
proof
  assume "suffix ''/pools/default/buckets'' u"
  from suffix_same_cases [OF assms this] show False
    by (simp add: suffix_to_prefix)
qed

lemma doHttpRequest_events:
  assumes "doHttpRequest c port path method body auth st = (r, st')"
  shows "config st' = config st
       \<and> (events st' = events st @ [EvHost]
          \<or> events st' = events st @ [EvHost, EvMappedPort port]
          \<or> (\<exists>url. suffix path url
                \<and> events st' = events st @ [EvHost, EvMappedPort port,
                                             EvHttpDo (mkRequest st method url body auth)]))"
proof (cases "getUrl c port path (events st)")
  case (Pair ue tr)
  obtain url err where ue: "ue = (url, err)" by (cases ue)
  show ?thesis
  proof (cases err)
    case None
    from getUrl_ok [of c port path "events st" url tr] Pair ue None
    have "suffix path url" "tr = events st @ [EvHost, EvMappedPort port]" by simp_all
    with assms Pair ue None show ?thesis
      by (auto simp: doHttpRequest_def split: option.splits sum.splits)
  next
    case (Some e)
    with Pair ue have "tr = events st @ [EvHost] \<or> tr = events st @ [EvHost, EvMappedPort port]"
      by (auto simp: getUrl_def split: prod.splits option.splits)
    with assms Pair ue Some show ?thesis
      by (auto simp: doHttpRequest_def)
  qed
qed

lemma query_request_bucketOps:
  assumes "doHttpRequest c QUERY_PORT ''/query/service'' method body auth st = (r, st')"
  shows "bucketOps (events st') = bucketOps (events st) \<and> config st' = config st"
  using doHttpRequest_events [OF assms]
  by (auto simp: bucketOp_def mkRequest_def dest: query_not_buckets)

lemma queryFlag_bucketOps:
  assumes "queryFlag c body path msg st = (r, st')"
  shows "bucketOps (events st') = bucketOps (events st) \<and> config st' = config st"
  using assms
  by (auto simp: queryFlag_def split: prod.splits option.splits if_splits dest!: query_request_bucketOps)

lemma backoff_Retry_bucketOps:
  assumes "backoff_Retry c operation st = Some y"
    and "\<And>s r s'. operation s = (r, s') \<Longrightarrow> bucketOps (events s') = bucketOps (events s) \<and> config s' = config s"
  shows "bucketOps (events (snd y)) = bucketOps (events st) \<and> config (snd y) = config st"
proof -
  have "(\<forall>s r s'. operation s = (r, s') \<longrightarrow> bucketOps (events s') = bucketOps (events s) \<and> config s' = config s)
      \<longrightarrow> bucketOps (events (snd y)) = bucketOps (events st) \<and> config (snd y) = config st"
    by (rule backoff_Retry.raw_induct [rotated 1, OF assms(1)])
       (auto split: prod.splits option.splits)
  with assms(2) show ?thesis by blast
qed

lemma isQueryKeyspacePresent_bucketOps:
  assumes "isQueryKeyspacePresent c b st = Some (r, st')"
  shows "bucketOps (events st') = bucketOps (events st) \<and> config st' = config st"
  using backoff_Retry_bucketOps [OF assms [unfolded isQueryKeyspacePresent_def] queryFlag_bucketOps]
  by simp

lemma isPrimaryIndexOnline_bucketOps:
  assumes "isPrimaryIndexOnline c b st = Some (r, st')"
  shows "bucketOps (events st') = bucketOps (events st) \<and> config st' = config st"
  using backoff_Retry_bucketOps [OF assms [unfolded isPrimaryIndexOnline_def] queryFlag_bucketOps]
  by simp

lemma createPrimaryIndex_bucketOps:
  assumes "createPrimaryIndex c b st = (r, st')"
  shows "bucketOps (events st') = bucketOps (events st) \<and> config st' = config st"
  using assms
  by (auto simp: createPrimaryIndex_def requestStep_def split: prod.splits dest!: query_request_bucketOps)

lemma primaryIndex_bucketOps:
  assumes "primaryIndex c b st = Some (r, st')"
  shows "bucketOps (events st') = bucketOps (events st) \<and> config st' = config st"
  using assms
  by (auto simp: primaryIndex_def split: if_splits prod.splits option.splits
      dest!: createPrimaryIndex_bucketOps isPrimaryIndexOnline_bucketOps)

lemma createBucket_ok:
  assumes "createBucket c b st = (None, st')"
  shows "bucketOps (events st') = bucketOps (events st) @ [Create (name b)] \<and> config st' = config st"
proof -
  from assms obtain response where
    "doHttpRequest c MGMT_PORT ''/pools/default/buckets'' ''POST''
       [(''name'', name b), (''ramQuotaMB'', Itoa (quota b)),
        (''flushEnabled'', if flushEnabled b then ''1'' else ''0''),
        (''replicaNumber'', Itoa (numReplicas b))] True st = ((response, None), st')"
    by (auto simp: createBucket_def requestStep_def split: prod.splits)
  from doHttpRequest_ok [OF this] show ?thesis
    by (auto simp: bucketOp_def mkRequest_def)
qed

lemma waitForAllServicesEnabled_bucketOps:
  assumes "waitForAllServicesEnabled c b st = (r, st')"
  shows "bucketOps (events st') = bucketOps (events st) @ [Probe (''/pools/default/b/'' @ name b)]
       \<and> config st' = config st"
  using assms
  by (auto simp: waitForAllServicesEnabled_def Let_def bucketOp_def)

lemma createBucketsFrom_append:
  "createBucketsFrom c (bs @ cs) st =
     (case createBucketsFrom c bs st of
        None \<Rightarrow> None
      | Some (Some e, st') \<Rightarrow> Some (Some e, st')
      | Some (None, st') \<Rightarrow> createBucketsFrom c cs st')"
  by (induction bs arbitrary: st) (auto split: option.splits prod.splits)

lemma createBucketsFrom_success:
  assumes "createBucketsFrom c bs st = Some (None, st')"
  shows "bucketOps (events st') = bucketOps (events st) @ bucketPlan bs \<and> config st' = config st"
  using assms
proof (induction bs arbitrary: st)
  case Nil
  then show ?case by (simp add: bucketPlan_def)
next
  case (Cons b bs)
  from Cons.prems obtain st1 st2 st3 st4 where
    c1: "createBucket c b st = (None, st1)"
    and c2: "waitForAllServicesEnabled c b st1 = (None, st2)"
    and c3: "(if contains (enabledServices (config st2)) (query c)
             then isQueryKeyspacePresent c b st2 else Some (None, st2)) = Some (None, st3)"
    and c4: "(if queryPrimaryIndex b then primaryIndex c b st3 else Some (None, st3)) = Some (None, st4)"
    and c5: "createBucketsFrom c bs st4 = Some (None, st')"
    by (auto split: prod.splits option.splits if_splits)
  from c3 have s3: "bucketOps (events st3) = bucketOps (events st2) \<and> config st3 = config st2"
    by (auto split: if_splits dest!: isQueryKeyspacePresent_bucketOps)
  from c4 have s4: "bucketOps (events st4) = bucketOps (events st3) \<and> config st4 = config st3"
    by (auto split: if_splits dest!: primaryIndex_bucketOps)
  from createBucket_ok [OF c1] waitForAllServicesEnabled_bucketOps [OF c2] s3 s4 Cons.IH [OF c5]
  show ?case by (simp add: bucketPlan_def)
qed

text \<open>
  C6. The buckets are processed in the order of the configuration, each creation followed
  by its readiness probe. If the buckets \<open>pre\<close> before \<open>b\<close> have been processed with
  success, \<open>b\<close> has been created and its readiness probe fails, then the loop returns the
  error of the probe in the state the probe left, and so do \<open>createBuckets\<close> and
  \<open>StartContainer\<close> when these are the declared buckets. The bucket operations of the
  trace are then a creation and a probe for each bucket of \<open>pre\<close> and for \<open>b\<close>, in
  order: no bucket declared after \<open>b\<close> has been created.
\<close>

theorem failed_probe_stops_bucket_creation:
  assumes "createBucketsFrom c pre st = Some (None, st1)"
    and "createBucket c b st1 = (None, st2)"
    and "waitForAllServicesEnabled c b st2 = (Some e, st3)"
  shows "createBucketsFrom c (pre @ b # post) st = Some (Some e, st3)
       \<and> bucketOps (events st3) = bucketOps (events st) @ bucketPlan (pre @ [b])
       \<and> (buckets (config st) = pre @ b # post \<longrightarrow> createBuckets c st = Some (Some e, st3))
       \<and> (\<forall>opts. c_GenericContainer c [] (imageName (applyOptions c opts))
                    (exposePorts (enabledServices (applyOptions c opts))) = None
                \<and> runClusterInit (clusterInitFunc c (applyOptions c opts)) (requested (applyOptions c opts))
                    = Some (None, st)
                \<and> buckets (config st) = pre @ b # post \<longrightarrow>
                StartContainer c opts = Some (Some e, st3))"
proof -
  have run: "createBucketsFrom c (pre @ b # post) st = Some (Some e, st3)"
    by (simp add: createBucketsFrom_append assms)
  have ops: "bucketOps (events st3) = bucketOps (events st) @ bucketPlan (pre @ [b])"
    using createBucketsFrom_success [OF assms(1)] createBucket_ok [OF assms(2)]
      waitForAllServicesEnabled_bucketOps [OF assms(3)]
    by (simp add: bucketPlan_def)
  have all: "createBuckets c st = Some (Some e, st3)" if "buckets (config st) = pre @ b # post"
    using run that by (simp add: createBuckets_def)
  have start: "StartContainer c opts = Some (Some e, st3)"
    if "c_GenericContainer c [] (imageName (applyOptions c opts))
          (exposePorts (enabledServices (applyOptions c opts))) = None"
      and "runClusterInit (clusterInitFunc c (applyOptions c opts)) (requested (applyOptions c opts))
          = Some (None, st)"
      and "buckets (config st) = pre @ b # post" for opts
    using that all by (simp add: StartContainer_def Let_def)
  from run ops all start show ?thesis by blast
qed

text \<open>The theorem at the demo cluster, which fails the probe of the second of three buckets.\<close>

lemma cfg_buckets_eval:
  "cfg_buckets = \<lparr>enabledServices = [kv demo_cluster, query demo_cluster, search demo_cluster, index demo_cluster],
      username = ''Administrator'', password = ''password'', imageName = ''couchbase:6.5.1'',
      isEnterprise = False,
      buckets = [NewBucket ''b0'', NewBucket ''b1'', NewBucket ''b2'']\<rparr>"
  by (simp add: cfg_buckets_def applyOptions_def defaultConfig_def WithBucket_def)

lemma st_ready_run:
  "runClusterInit (clusterInitFunc demo_cluster cfg_buckets) (requested cfg_buckets) = Some (None, st_ready)"
  by (simp add: st_ready_def cfg_buckets_eval step_defs port_defs demo_defs)

lemma st_ready_config: "config st_ready = cfg_buckets"
  by (simp add: st_ready_def cfg_buckets_eval step_defs port_defs demo_defs)

lemma st_b0_run: "createBucketsFrom demo_cluster [NewBucket ''b0''] st_ready = Some (None, st_b0)"
  by (simp add: st_b0_def st_ready_config cfg_buckets_eval createBucket_def waitForAllServicesEnabled_def
      isQueryKeyspacePresent_def isPrimaryIndexOnline_def primaryIndex_def createPrimaryIndex_def
      queryFlag_def backoff_Retry.simps requestStep_def doHttpRequest_def getUrl_def mkRequest_def
      Let_def port_defs demo_defs)

lemmas bucket_defs = createBucket_def waitForAllServicesEnabled_def
      isQueryKeyspacePresent_def isPrimaryIndexOnline_def primaryIndex_def createPrimaryIndex_def
      queryFlag_def backoff_Retry.simps requestStep_def doHttpRequest_def getUrl_def mkRequest_def
      Let_def

lemma st_b0_config: "config st_b0 = cfg_buckets"
  using createBucketsFrom_success [OF st_b0_run] by (simp add: st_ready_config)

lemma st_b1_created_run: "createBucket demo_cluster (NewBucket ''b1'') st_b0 = (None, st_b1_created)"
  by (simp add: st_b1_created_def st_b0_config cfg_buckets_eval bucket_defs port_defs demo_defs)

lemma st_b1_probed_run:
  "waitForAllServicesEnabled demo_cluster (NewBucket ''b1'') st_b1_created = (Some (ErrorString ''timeout''), st_b1_probed)"
  by (simp add: st_b1_probed_def waitForAllServicesEnabled_def Let_def demo_defs)

theorem failed_probe_stops_bucket_creation_witness:
  "StartContainer demo_cluster
     [WithBucket (NewBucket ''b0''), WithBucket (NewBucket ''b1''), WithBucket (NewBucket ''b2'')]
     = Some (Some (ErrorString ''timeout''), st_b1_probed)
   \<and> bucketOps (events st_b1_probed) =
       bucketOps (events st_ready)
       @ [Create ''b0'', Probe ''/pools/default/b/b0'', Create ''b1'', Probe ''/pools/default/b/b1'']"
proof -
  have container: "c_GenericContainer demo_cluster [] (imageName cfg_buckets)
      (exposePorts (enabledServices cfg_buckets)) = None"
    by (simp add: demo_cluster_def)
  have declared: "buckets (config st_ready) = [NewBucket ''b0''] @ NewBucket ''b1'' # [NewBucket ''b2'']"
    by (simp add: st_ready_config cfg_buckets_eval)
  from failed_probe_stops_bucket_creation
    [OF st_b0_run st_b1_created_run st_b1_probed_run, of "[NewBucket ''b2'']"]
    container st_ready_run declared
  show ?thesis
    by (simp add: cfg_buckets_def bucketPlan_def NewBucket_def)
qed


subsection \<open>A primary index without the query service\<close>

lemma unchanged_refl [simp]: "unchanged st st"
  by (simp add: unchanged_def)

lemma unchanged_trans: "unchanged st st1 \<Longrightarrow> unchanged st1 st2 \<Longrightarrow> unchanged st st2"
  by (simp add: unchanged_def)

lemma not_primary_index_simps [simp]:
  "\<not> is_primary_index_request EvHost" "\<not> is_primary_index_request (EvMappedPort p)"
  "\<not> is_primary_index_request EvContainerIP" "\<not> is_primary_index_request (EvWaitHTTP hs)"
  "\<not> is_primary_index_request (EvGenericContainer img exposed)"
  "map_of body ''statement'' = None \<Longrightarrow> \<not> is_primary_index_request (EvHttpDo (mkRequest st method url body auth))"
  by (simp_all add: is_primary_index_request_def mkRequest_def)

lemma filter_primary_index_lookups [simp]:
  "filter is_primary_index_request (map EvMappedPort ps) = []"
  "filter is_primary_index_request (map EvWaitHTTP hss) = []"
  by (induction ps) (simp_all add: filter_empty_conv)

lemma doHttpRequest_unchanged:
  assumes "doHttpRequest c port path method body auth st = (r, st')"
    and "map_of body ''statement'' = None"
  shows "unchanged st st'"
  using doHttpRequest_events [OF assms(1)] assms(2)
  by (auto simp: unchanged_def)

lemma requestStep_unchanged:
  assumes "requestStep c port path method body auth st = (r, st')"
    and "map_of body ''statement'' = None"
  shows "unchanged st st'"
  using assms
  by (auto simp: requestStep_def split: prod.splits dest: doHttpRequest_unchanged)

lemma waitUntilNodeIsOnline_unchanged: "waitUntilNodeIsOnline c st = (r, st') \<Longrightarrow> unchanged st st'"
  by (auto simp: waitUntilNodeIsOnline_def Let_def unchanged_def)

lemma initializeIsEnterprise_unchanged: "initializeIsEnterprise c st = (r, st') \<Longrightarrow> unchanged st st'"
proof -
  assume a: "initializeIsEnterprise c st = (r, st')"
  obtain resp err st1 where d: "doHttpRequest c MGMT_PORT ''/pools'' ''GET'' [] False st = ((resp, err), st1)"
    by (metis prod.exhaust)
  from doHttpRequest_unchanged [OF d] have "unchanged st st1" by simp
  with a d show ?thesis
    by (auto simp: initializeIsEnterprise_def Let_def unchanged_def split: option.splits if_splits)
qed

lemma renameNode_unchanged: "renameNode c st = (r, st') \<Longrightarrow> unchanged st st'"
proof -
  assume a: "renameNode c st = (r, st')"
  show ?thesis
  proof (cases "snd (c_ContainerIP c (events st))")
    case None
    with a have "requestStep c MGMT_PORT ''/node/controller/rename'' ''POST''
        [(''hostname'', fst (c_ContainerIP c (events st)))] False (st\<lparr>events := events st @ [EvContainerIP]\<rparr>) = (r, st')"
      by (auto simp: renameNode_def getInternalIPAddress_def split: prod.splits option.splits)
    from requestStep_unchanged [OF this] show ?thesis
      by (simp add: unchanged_def)
  next
    case (Some e)
    with a show ?thesis
      by (auto simp: renameNode_def getInternalIPAddress_def unchanged_def split: prod.splits option.splits)
  qed
qed

lemma initializeServices_unchanged: "initializeServices c st = (r, st') \<Longrightarrow> unchanged st st'"
  by (auto simp: initializeServices_def dest!: requestStep_unchanged)

lemma quotaBody_keys:
  "fst ` set (fold (\<lambda>s body.
             if \<not> hasQuota c s then body
             else if identifier s = identifier (kv c)
             then AList.update ''memoryQuota'' (Itoa (minimumQuotaMb s)) body
             else AList.update (identifier s @ ''MemoryQuota'') (Itoa (minimumQuotaMb s)) body) services body0)
     \<subseteq> fst ` set body0 \<union> {''memoryQuota''} \<union> {identifier s @ ''MemoryQuota'' | s. s \<in> set services}"
proof (induction services arbitrary: body0)
  case Nil
  then show ?case by auto
next
  case (Cons s services)
  show ?case
    apply (simp only: fold_simps)
    apply (rule order_trans [OF Cons.IH])
    apply (auto simp: dom_update)
    done
qed

lemma statement_not_quota_key: "''statement'' \<noteq> x @ ''MemoryQuota''"
proof
  assume "''statement'' = x @ ''MemoryQuota''"
  then have "last ''statement'' = last (x @ ''MemoryQuota'')" by simp
  then show False by simp
qed

lemma quotaBody_no_statement: "map_of (quotaBody c services) ''statement'' = None"
proof -
  have "''statement'' \<notin> fst ` set (quotaBody c services)"
    using quotaBody_keys [of c services "[]"] statement_not_quota_key
    by (auto simp: quotaBody_def)
  then show ?thesis by (simp add: map_of_eq_None_iff)
qed

lemma setMemoryQuotas_unchanged: "setMemoryQuotas c st = (r, st') \<Longrightarrow> unchanged st st'"
  by (auto simp: setMemoryQuotas_def quotaBody_no_statement dest!: requestStep_unchanged)

lemma configureAdminUser_unchanged: "configureAdminUser c st = (r, st') \<Longrightarrow> unchanged st st'"
  by (auto simp: configureAdminUser_def dest!: requestStep_unchanged)

lemma configureIndexer_unchanged: "configureIndexer c st = (r, st') \<Longrightarrow> unchanged st st'"
  by (auto simp: configureIndexer_def dest!: requestStep_unchanged)

lemma externalPortsBody_no_statement: "map_of (fst (externalPortsBody c cfg tr)) ''statement'' = None"
proof -
  have "''statement'' \<notin> fst ` set (externalPortsTable c cfg)"
    by (auto simp: externalPortsTable_def)
  then show ?thesis
    by (simp add: externalPortsBody_def lookupPorts_other_key)
qed

lemma configureExternalPorts_unchanged:
  assumes "configureExternalPorts c st = (r, st')"
  shows "unchanged st st'"
proof -
  from assms have "requestStep c MGMT_PORT ''/node/controller/setupAlternateAddresses/external'' ''PUT''
      (fst (externalPortsBody c (config st) (events st))) True
      (st\<lparr>events := snd (externalPortsBody c (config st) (events st))\<rparr>) = (r, st')"
    by (simp add: configureExternalPorts_def split: prod.splits)
  from requestStep_unchanged [OF this externalPortsBody_no_statement]
  show ?thesis
    by (simp add: unchanged_def externalPortsBody_def lookupPorts_trace)
qed

lemma MultiStrategy_HTTP_total:
  "\<exists>r tr'. MultiStrategy_WaitUntilReady (map (HTTPStrategy_WaitUntilReady c) hss) tr = Some (r, tr')"
proof (induction hss arbitrary: tr)
  case Nil
  then show ?case by simp
next
  case (Cons hs hss)
  have "MultiStrategy_WaitUntilReady (map (HTTPStrategy_WaitUntilReady c) (hs # hss)) tr =
      (case c_WaitHTTP c tr hs of
        Some e \<Rightarrow> Some (Some e, tr @ [EvWaitHTTP hs])
      | None \<Rightarrow> MultiStrategy_WaitUntilReady (map (HTTPStrategy_WaitUntilReady c) hss) (tr @ [EvWaitHTTP hs]))"
    by (simp only: list.map MultiStrategy_HTTP_step)
  with Cons.IH [of "tr @ [EvWaitHTTP hs]"] show ?case
    by (cases "c_WaitHTTP c tr hs") auto
qed

lemma waitUntilAllNodesAreHealthy_total:
  "\<exists>r st'. waitUntilAllNodesAreHealthy c st = Some (r, st') \<and> unchanged st st'"
proof -
  from MultiStrategy_HTTP_total obtain r tr' where
    run: "MultiStrategy_WaitUntilReady (map (HTTPStrategy_WaitUntilReady c) (healthStrategies c (config st)))
      (events st) = Some (r, tr')" by blast
  then have w: "waitUntilAllNodesAreHealthy c st = Some (r, st\<lparr>events := tr'\<rparr>)"
    by (simp add: waitUntilAllNodesAreHealthy_def)
  from MultiStrategy_HTTP [OF run] have "filter is_primary_index_request tr' = filter is_primary_index_request (events st)"
    by auto
  then have "unchanged st (st\<lparr>events := tr'\<rparr>)"
    by (simp add: unchanged_def)
  with w show ?thesis by blast
qed

lemma runClusterInit_total:
  assumes "\<forall>fn \<in> set fns. \<forall>st. \<exists>r st'. fn st = Some (r, st') \<and> unchanged st st'"
  shows "\<exists>r st'. runClusterInit fns st = Some (r, st') \<and> unchanged st st'"
  using assms
proof (induction fns arbitrary: st)
  case Nil
  then show ?case by simp
next
  case (Cons fn fns)
  from Cons.prems obtain r st1 where fn: "fn st = Some (r, st1)" and u1: "unchanged st st1"
    by (meson list.set_intros(1))
  show ?case
  proof (cases r)
    case None
    from Cons.prems have "\<forall>fn \<in> set fns. \<forall>st. \<exists>r st'. fn st = Some (r, st') \<and> unchanged st st'"
      by simp
    from Cons.IH [OF this, of st1] obtain r' st' where "runClusterInit fns st1 = Some (r', st')"
      and "unchanged st1 st'" by blast
    with fn None u1 show ?thesis
      by (auto intro: unchanged_trans)
  next
    case (Some e)
    with fn u1 show ?thesis by auto
  qed
qed

lemma pair_total:
  assumes "\<And>r st'. f st = (r, st') \<Longrightarrow> unchanged st st'"
  shows "\<exists>r st'. f st = (r, st') \<and> unchanged st st'"
  using assms by (cases "f st") auto

lemma clusterInitFunc_total:
  "\<forall>fn \<in> set (clusterInitFunc c cfg). \<forall>st. \<exists>r st'. fn st = Some (r, st') \<and> unchanged st st'"
  unfolding clusterInitFunc_def
  by (auto intro!: pair_total waitUntilAllNodesAreHealthy_total
        intro: waitUntilNodeIsOnline_unchanged initializeIsEnterprise_unchanged renameNode_unchanged
          initializeServices_unchanged setMemoryQuotas_unchanged configureAdminUser_unchanged
          configureExternalPorts_unchanged configureIndexer_unchanged)

lemma createBucket_unchanged: "createBucket c b st = (r, st') \<Longrightarrow> unchanged st st'"
  by (auto simp: createBucket_def dest!: requestStep_unchanged)

lemma waitForAllServicesEnabled_unchanged: "waitForAllServicesEnabled c b st = (r, st') \<Longrightarrow> unchanged st st'"
  by (auto simp: waitForAllServicesEnabled_def Let_def unchanged_def)

lemma createBucketsFrom_no_query:
  assumes "\<not> contains (enabledServices (config st)) (query c)"
  shows "\<exists>r st'. createBucketsFrom c bs st = Some (r, st') \<and> unchanged st st'
           \<and> ((\<exists>b \<in> set bs. queryPrimaryIndex b) \<longrightarrow> r \<noteq> None)"
  using assms
proof (induction bs arbitrary: st)
  case Nil
  then show ?case by simp
next
  case (Cons b bs)
  obtain r1 st1 where c1: "createBucket c b st = (r1, st1)" by (cases "createBucket c b st")
  obtain r2 st2 where c2: "waitForAllServicesEnabled c b st1 = (r2, st2)"
    by (cases "waitForAllServicesEnabled c b st1")
  note u1 = createBucket_unchanged [OF c1]
  note u2 = waitForAllServicesEnabled_unchanged [OF c2]
  from unchanged_trans [OF u1 u2] have u: "unchanged st st2" .
  with Cons.prems have nq: "\<not> contains (enabledServices (config st2)) (query c)"
    by (simp add: unchanged_def)
  from Cons.IH [OF nq] obtain r' st' where rest: "createBucketsFrom c bs st2 = Some (r', st')"
    and u': "unchanged st2 st'" and err: "(\<exists>b \<in> set bs. queryPrimaryIndex b) \<longrightarrow> r' \<noteq> None"
    by blast
  show ?case
  proof (cases r1)
    case (Some e)
    with c1 u1 show ?thesis by auto
  next
    case None
    note r1 = this
    show ?thesis
    proof (cases r2)
      case (Some e)
      with c1 c2 r1 unchanged_trans [OF u1 u2] show ?thesis by auto
    next
      case None
      show ?thesis
      proof (cases "queryPrimaryIndex b")
        case True
        with c1 c2 r1 None nq u show ?thesis
          by (auto simp: primaryIndex_def)
      next
        case False
        with c1 c2 r1 None nq rest err unchanged_trans [OF u u'] show ?thesis
          by auto
      qed
    qed
  qed
qed

text \<open>
  C10. Take a configuration that declares a bucket \<open>b\<close> with a primary index while the
  query service is not among the enabled services. Then \<open>StartContainer\<close> returns, and
  what it returns is an error; the trace holds no primary-index creation request. When
  the container is obtained, the cluster is initialised, the buckets before \<open>b\<close> are
  processed, and \<open>b\<close> is created and probed with success, the error is the one that says
  that the primary index creation for the bucket named \<open>name b\<close> is ignored since the
  query service is not present: the index is not skipped in silence.
\<close>

theorem primary_index_needs_query_service:
  assumes "cfg = applyOptions c opts"
    and "b \<in> set (buckets cfg)"
    and "queryPrimaryIndex b"
    and "\<not> contains (enabledServices cfg) (query c)"
  shows "(\<exists>e st. StartContainer c opts = Some (Some e, st)
            \<and> filter is_primary_index_request (events st) = [])
       \<and> (\<forall>pre post st0 st1 st2 st3.
             c_GenericContainer c [] (imageName cfg) (exposePorts (enabledServices cfg)) = None
             \<and> runClusterInit (clusterInitFunc c cfg) (requested cfg) = Some (None, st0)
             \<and> buckets cfg = pre @ b # post
             \<and> createBucketsFrom c pre st0 = Some (None, st1)
             \<and> createBucket c b st1 = (None, st2)
             \<and> waitForAllServicesEnabled c b st2 = (None, st3) \<longrightarrow>
             StartContainer c opts =
               Some (Some (ErrorString (''primary index creation for bucket '' @ name b
                             @ '' ignored, since QUERY service is not present'')), st3))"
proof -
  obtain r0 st0 where init: "runClusterInit (clusterInitFunc c cfg) (requested cfg) = Some (r0, st0)"
    and u0: "unchanged (requested cfg) st0"
    using runClusterInit_total [OF clusterInitFunc_total] by blast
  have req: "filter is_primary_index_request (events (requested cfg)) = []"
    by (simp add: requested_def)
  have cfg0: "enabledServices (config st0) = enabledServices cfg" "buckets (config st0) = buckets cfg"
    and ev0: "filter is_primary_index_request (events st0) = []"
    using u0 req by (simp_all add: unchanged_def requested_def)
  have part1: "\<exists>e st. StartContainer c opts = Some (Some e, st)
            \<and> filter is_primary_index_request (events st) = []"
  proof (cases "c_GenericContainer c [] (imageName cfg) (exposePorts (enabledServices cfg))")
    case (Some e)
    with assms(1) req show ?thesis
      by (auto simp: StartContainer_def Let_def)
  next
    case None
    note container = this
    show ?thesis
    proof (cases r0)
      case (Some e)
      with assms(1) container init ev0 show ?thesis
        by (auto simp: StartContainer_def Let_def)
    next
      case None
      from assms(4) cfg0 have "\<not> contains (enabledServices (config st0)) (query c)" by simp
      from createBucketsFrom_no_query [OF this, of "buckets (config st0)"] assms(2,3) cfg0
      obtain r st' where "createBucketsFrom c (buckets (config st0)) st0 = Some (r, st')"
        and "unchanged st0 st'" and "r \<noteq> None" by auto
      with assms(1) container init None ev0 show ?thesis
        by (auto simp: StartContainer_def Let_def createBuckets_def unchanged_def)
    qed
  qed
  have part2: "StartContainer c opts =
               Some (Some (ErrorString (''primary index creation for bucket '' @ name b
                             @ '' ignored, since QUERY service is not present'')), st3)"
    if container: "c_GenericContainer c [] (imageName cfg) (exposePorts (enabledServices cfg)) = None"
      and run: "runClusterInit (clusterInitFunc c cfg) (requested cfg) = Some (None, s0)"
      and decl: "buckets cfg = pre @ b # post"
      and p: "createBucketsFrom c pre s0 = Some (None, st1)"
      and c1: "createBucket c b st1 = (None, st2)"
      and c2: "waitForAllServicesEnabled c b st2 = (None, st3)"
    for pre post s0 st1 st2 st3
  proof -
    from run init have s0: "s0 = st0" "r0 = None" by simp_all
    from createBucketsFrom_success [OF p] createBucket_ok [OF c1] waitForAllServicesEnabled_bucketOps [OF c2]
    have "config st3 = config st0" by (simp add: s0)
    with assms(4) cfg0 have nq: "\<not> contains (enabledServices (config st3)) (query c)" by simp
    have "createBucketsFrom c (pre @ b # post) s0 =
        Some (Some (ErrorString (''primary index creation for bucket '' @ name b
                      @ '' ignored, since QUERY service is not present'')), st3)"
      using p c1 c2 nq assms(3)
      by (simp add: createBucketsFrom_append primaryIndex_def)
    with assms(1) container run decl cfg0 s0 show ?thesis
      by (simp add: StartContainer_def Let_def createBuckets_def)
  qed
  from part1 part2 show ?thesis by blast
qed

text \<open>The theorem at the demo cluster, with the KV service alone.\<close>

lemma cfg_kv_eval:
  "cfg_kv = \<lparr>enabledServices = [kv demo_cluster], username = ''Administrator'', password = ''password'',
      imageName = ''couchbase:6.5.1'', isEnterprise = False, buckets = [NewBucket ''b0'']\<rparr>"
  by (simp add: cfg_kv_def applyOptions_def defaultConfig_def WithBucket_def WithServices_def)

lemma st_kv_ready_run:
  "runClusterInit (clusterInitFunc demo_cluster cfg_kv) (requested cfg_kv) = Some (None, st_kv_ready)"
  by (simp add: st_kv_ready_def cfg_kv_eval step_defs port_defs demo_defs)

lemma st_kv_created_run: "createBucket demo_cluster (NewBucket ''b0'') st_kv_ready = (None, st_kv_created)"
  by (simp add: st_kv_created_def createBucket_def requestStep_def doHttpRequest_def getUrl_def
      mkRequest_def port_defs demo_defs)

lemma st_kv_probed_run:
  "waitForAllServicesEnabled demo_cluster (NewBucket ''b0'') st_kv_created = (None, st_kv_probed)"
  by (simp add: st_kv_probed_def waitForAllServicesEnabled_def Let_def demo_defs)

theorem primary_index_needs_query_service_witness:
  "StartContainer demo_cluster [WithServices [kv demo_cluster], WithBucket (NewBucket ''b0'')] =
     Some (Some (ErrorString
             ''primary index creation for bucket b0 ignored, since QUERY service is not present''),
           st_kv_probed)"
proof -
  have declared: "NewBucket ''b0'' \<in> set (buckets cfg_kv)"
    by (simp add: cfg_kv_eval)
  have indexed: "queryPrimaryIndex (NewBucket ''b0'')"
    by (simp add: NewBucket_def)
  have no_query: "\<not> contains (enabledServices cfg_kv) (query demo_cluster)"
    by (simp add: cfg_kv_eval demo_cluster_def)
  have container: "c_GenericContainer demo_cluster [] (imageName cfg_kv)
      (exposePorts (enabledServices cfg_kv)) = None"
    by (simp add: demo_cluster_def)
  have split: "buckets cfg_kv = [] @ NewBucket ''b0'' # []"
    by (simp add: cfg_kv_eval)
  have none: "createBucketsFrom demo_cluster [] st_kv_ready = Some (None, st_kv_ready)"
    by simp
  from primary_index_needs_query_service [OF cfg_kv_def declared indexed no_query]
    container st_kv_ready_run split none st_kv_created_run st_kv_probed_run
  have "StartContainer demo_cluster [WithServices [kv demo_cluster], WithBucket (NewBucket ''b0'')] =
     Some (Some (ErrorString (''primary index creation for bucket '' @ name (NewBucket ''b0'')
                   @ '' ignored, since QUERY service is not present'')), st_kv_probed)"
    by blast
  then show ?thesis by (simp add: NewBucket_def)
qed


end
